theory Spec2Isabelle
  imports Main
begin

section \<open>Strings as the validators see them\<close>

text \<open>
  Option texts, titles and identifiers are JavaScript strings; they are modelled as
  \<^typ>\<open>string\<close>, one \<^typ>\<open>char\<close> per code unit in the range 0..255. \<open>trim\<close> is
  \<open>String.prototype.trim\<close> restricted to that range (tab, line feed, vertical tab, form
  feed, carriage return, space, no-break space), \<open>toLowerCase\<close> maps A..Z and the
  Latin-1 capitals to their small letters.
\<close>

definition is_space :: "char \<Rightarrow> bool" where
  "is_space c = (of_char c \<in> set [9, 10, 11, 12, 13, 32, 160 :: nat])"

definition trim :: "string \<Rightarrow> string" where
  "trim s = rev (dropWhile is_space (rev (dropWhile is_space s)))"

definition lower_char :: "char \<Rightarrow> char" where
  "lower_char c =
     (let n = (of_char c :: nat)
      in if (65 \<le> n \<and> n \<le> 90) \<or> (192 \<le> n \<and> n \<le> 222 \<and> n \<noteq> 215)
         then char_of (n + 32) else c)"

definition toLowerCase :: "string \<Rightarrow> string" where
  "toLowerCase s = map lower_char s"

definition digit_char :: "nat \<Rightarrow> char" where
  "digit_char d = char_of (48 + d)"

fun string_of_nat :: "nat \<Rightarrow> string" where
  "string_of_nat n =
     (if n < 10 then [digit_char n] else string_of_nat (n div 10) @ [digit_char (n mod 10)])"

declare string_of_nat.simps [simp del]

section \<open>Validation (lib/validation)\<close>

record ValidationResult =
  isValid :: bool
  error_v :: "string option"

definition valid :: ValidationResult where
  "valid = \<lparr>isValid = True, error_v = None\<rparr>"

definition invalid :: "string \<Rightarrow> ValidationResult" where
  "invalid msg = \<lparr>isValid = False, error_v = Some msg\<rparr>"

definition validatePollTitle :: "string \<Rightarrow> ValidationResult" where
  "validatePollTitle title =
     (if trim title = [] then invalid ''Poll title is required''
      else if length (trim title) < 3 then invalid ''Poll title must be at least 3 characters long''
      else if length (trim title) > 200 then invalid ''Poll title must be less than 200 characters''
      else valid)"

definition validatePollDescription :: "string \<Rightarrow> ValidationResult" where
  "validatePollDescription description =
     (if description \<noteq> [] \<and> length description > 1000
      then invalid ''Description must be less than 1000 characters''
      else valid)"

definition validatePollOption :: "string \<Rightarrow> ValidationResult" where
  "validatePollOption option =
     (if trim option = [] then invalid ''Option text is required''
      else if length (trim option) < 1 then invalid ''Option text must be at least 1 character long''
      else if length (trim option) > 100 then invalid ''Option text must be less than 100 characters''
      else valid)"

text \<open>
  The \<open>for\<close> loop of \<open>validatePollOptions\<close>: the first option that fails
  \<open>validatePollOption\<close> ends the loop, and its message is prefixed with its 1-based
  position.
\<close>

fun validateEach :: "nat \<Rightarrow> string list \<Rightarrow> ValidationResult" where
  "validateEach i [] = valid"
| "validateEach i (opt # rest) =
     (let result = validatePollOption opt
      in if \<not> isValid result
         then invalid (''Option '' @ string_of_nat (i + 1) @ '': '' @ (case error_v result of None \<Rightarrow> ''undefined'' | Some m \<Rightarrow> m))
         else validateEach (i + 1) rest)"

text \<open>\<open>new Set(xs).size\<close> is the number of distinct elements of \<open>xs\<close>.\<close>

definition set_size :: "'a list \<Rightarrow> nat" where
  "set_size xs = length (remdups xs)"

definition validatePollOptions :: "string list \<Rightarrow> ValidationResult" where
  "validatePollOptions options =
     (if length options < 2 then invalid ''At least 2 options are required''
      else if length options > 10 then invalid ''Maximum 10 options allowed''
      else let trimmedOptions = map (\<lambda>opt. toLowerCase (trim opt)) options
           in if set_size trimmedOptions \<noteq> length trimmedOptions
              then invalid ''Duplicate options are not allowed''
              else validateEach 0 options)"

section \<open>Errors and operation results (lib/error-handling, lib/poll-actions)\<close>

datatype error_type = Validation | Api | Network | General

record FormError =
  field :: "string option"
  message :: string
  type_e :: error_type

text \<open>The error object a Supabase request resolves with.\<close>

record PostgrestError =
  code :: string
  message_pg :: string

text \<open>
  \<open>parseApiError\<close> takes a value of type \<open>any\<close> and reads four of its properties:
  \<open>response\<close> (with \<open>status\<close> and \<open>data.message || data.error\<close>), \<open>request\<close>,
  \<open>message\<close> and, in \<open>handleDatabaseError\<close>, \<open>code\<close>. A \<open>FormError\<close> and a
  \<open>PostgrestError\<close> have neither \<open>response\<close> nor \<open>request\<close>.
\<close>

record http_response =
  status :: nat
  data_message :: "string option"

record any_error =
  response :: "http_response option"
  request :: bool
  message_a :: "string option"
  code_a :: "string option"

definition of_FormError :: "FormError \<Rightarrow> any_error" where
  "of_FormError err =
     \<lparr>response = None, request = False, message_a = Some (message err), code_a = None\<rparr>"

definition of_PostgrestError :: "PostgrestError \<Rightarrow> any_error" where
  "of_PostgrestError err =
     \<lparr>response = None, request = False, message_a = Some (message_pg err),
      code_a = Some (code err)\<rparr>"

text \<open>\<open>a || b\<close> on an optional string: the empty string and \<open>undefined\<close> are falsy.\<close>

definition or_else :: "string option \<Rightarrow> string \<Rightarrow> string" where
  "or_else a b = (case a of None \<Rightarrow> b | Some m \<Rightarrow> if m = [] then b else m)"

definition createFormError :: "string \<Rightarrow> error_type \<Rightarrow> FormError" where
  "createFormError msg ty = \<lparr>field = None, message = msg, type_e = ty\<rparr>"

definition parseApiError :: "any_error \<Rightarrow> FormError" where
  "parseApiError err =
     (case response err of
        Some resp \<Rightarrow>
          (let msg = or_else (data_message resp) ''Server error occurred'';
               st = status resp
           in if st = 400 then createFormError ''Invalid request. Please check your input.'' Api
              else if st = 401 then createFormError ''Authentication required. Please sign in.'' Api
              else if st = 403
                then createFormError ''You don't have permission to perform this action.'' Api
              else if st = 404 then createFormError ''The requested resource was not found.'' Api
              else if st = 409
                then createFormError ''Conflict occurred. The resource may already exist.'' Api
              else if st = 422 then createFormError msg Validation
              else if st = 429
                then createFormError ''Too many requests. Please wait a moment and try again.'' Api
              else if st = 500
                then createFormError ''Server error occurred. Please try again later.'' Api
              else createFormError msg Api)
      | None \<Rightarrow>
          if request err
          then createFormError ''Network error. Please check your connection and try again.'' Network
          else createFormError (or_else (message_a err) ''An unexpected error occurred.'') General)"

record 'a PollOperationResult =
  success :: bool
  data :: "'a option"
  error :: "FormError option"
  validationErrors :: "(string \<times> string) list option"

definition createErrorResponse :: "any_error \<Rightarrow> 'a PollOperationResult" where
  "createErrorResponse err =
     \<lparr>success = False, data = None, error = Some (parseApiError err), validationErrors = None\<rparr>"

definition createSuccessResponse :: "'a \<Rightarrow> 'a PollOperationResult" where
  "createSuccessResponse d =
     \<lparr>success = True, data = Some d, error = None, validationErrors = None\<rparr>"

definition handleDatabaseError :: "PostgrestError \<Rightarrow> 'a PollOperationResult" where
  "handleDatabaseError err =
     (if code err = ''PGRST116''
        then createErrorResponse (of_FormError (createFormError ''Resource not found'' Api))
      else if code err = ''23505''
        then createErrorResponse (of_FormError (createFormError ''Resource already exists'' Api))
      else if code err = ''23503''
        then createErrorResponse
               (of_FormError (createFormError ''Referenced resource not found'' Api))
      else createErrorResponse (of_PostgrestError err))"

text \<open>The result every validator of poll-actions builds from its \<open>validationErrors\<close>.\<close>

definition validation_result :: "(string \<times> string) list \<Rightarrow> 'a PollOperationResult" where
  "validation_result validationErrors' =
     (let hasErrors = (length validationErrors' > 0)
      in \<lparr>success = \<not> hasErrors, data = None,
          error = (if hasErrors then Some (createFormError ''Validation failed'' Validation)
                   else None),
          validationErrors = (if hasErrors then Some validationErrors' else None)\<rparr>)"

section \<open>The data model and the datastore\<close>

text \<open>
  Rows of the two tables the module reads and writes, \<open>polls\<close> and \<open>poll_options\<close>.
  Identifiers are strings (UUIDs), timestamps are milliseconds, vote counts are integers
  (the column is a 32-bit integer, a JavaScript number in the client; the model does not
  bound them). A \<open>Poll\<close> is the poll row spread into an object that also carries its
  options and their total, as \<open>{...poll, options, total_votes}\<close> builds it. A date
  string is taken as the time it parses to, an absent or empty one as \<open>None\<close>. Where
  two interfaces have a field of the same name the fields carry a suffix: \<open>_o\<close> for an
  option row, \<open>_p\<close> for a poll row, \<open>_c\<close> and \<open>_u\<close> for the data of a creation and
  of an update.
\<close>

record PollOption =
  id_o :: string
  poll_id_o :: string
  text_o :: string
  votes :: int
  order_index :: nat

record poll_row =
  id_p :: string
  title :: string
  description :: "string option"
  created_by :: string
  created_at :: int
  updated_at :: int
  expires_at :: "int option"
  is_active :: bool

record Poll = poll_row +
  options :: "PollOption list"
  total_votes :: int

record CreatePollData =
  title_c :: string
  description_c :: "string option"
  options_c :: "string list"
  expires_at_c :: "int option"

record UpdatePollData =
  title_u :: "string option"
  description_u :: "string option"
  options_u :: "string list option"
  expires_at_u :: "int option"
  is_active_u :: "bool option"

record VoteData =
  poll_id :: string
  option_id :: string

record PollListResult =
  polls_l :: "Poll list"
  total_l :: nat
  page_l :: int
  limit_l :: int

record database =
  polls :: "poll_row list"
  poll_options :: "PollOption list"

text \<open>
  What a call cannot decide by itself is its environment: the signed-in user (none when
  \<open>auth.getUser\<close> gives an error or no user), the clock, the identifiers the datastore
  generates for inserted rows, and, for each request the module awaits, whether the
  datastore answers it with an error instead of carrying it out.
\<close>

datatype request_site =
    InsertPoll | InsertOptions | CleanupPoll
  | SelectPollWithOptions | SelectPolls | SelectCreatedBy
  | UpdatePollRow | DeleteOptions | ReinsertOptions | SelectOptionsOfPoll
  | SelectActivePoll | SelectOption | UpdateVotes

record env =
  auth_user :: "string option"
  now :: int
  gen_id :: "nat \<Rightarrow> string"
  fault :: "request_site \<Rightarrow> PostgrestError option"

definition answered :: "env \<Rightarrow> request_site \<Rightarrow> PostgrestError + 'a \<Rightarrow> PostgrestError + 'a" where
  "answered e site outcome = (case fault e site of Some err \<Rightarrow> Inl err | None \<Rightarrow> outcome)"

text \<open>\<open>.single()\<close>: exactly one row, or the error PGRST116.\<close>

definition single :: "'a list \<Rightarrow> PostgrestError + 'a" where
  "single rows =
     (case rows of
        [r] \<Rightarrow> Inr r
      | _ \<Rightarrow> Inl \<lparr>code = ''PGRST116'', message_pg = ''JSON object requested, multiple (or no) rows returned''\<rparr>)"

text \<open>A primary key refuses an identifier that is already in the table (error 23505).\<close>

definition duplicate_key :: PostgrestError where
  "duplicate_key = \<lparr>code = ''23505'', message_pg = ''duplicate key value violates unique constraint''\<rparr>"

definition insert_poll :: "env \<Rightarrow> database \<Rightarrow> string \<Rightarrow> string option \<Rightarrow> string \<Rightarrow> int option
    \<Rightarrow> PostgrestError + (poll_row \<times> database)" where
  "insert_poll e db ttl descr creator expires =
     answered e InsertPoll
       (let row = \<lparr>id_p = gen_id e 0, title = ttl, description = descr, created_by = creator,
                   created_at = now e, updated_at = now e, expires_at = expires,
                   is_active = True\<rparr>
        in if id_p row \<in> set (map id_p (polls db)) then Inl duplicate_key
           else Inr (row, db\<lparr>polls := polls db @ [row]\<rparr>))"

text \<open>
  \<open>optionsData\<close>: one row per option text, trimmed, with no votes and its index; the
  datastore gives the i-th row the identifier \<open>gen_id e (i + 1)\<close>.
\<close>

definition optionsData :: "env \<Rightarrow> string \<Rightarrow> string list \<Rightarrow> PollOption list" where
  "optionsData e pollId texts =
     map (\<lambda>(index, txt). \<lparr>id_o = gen_id e (index + 1), poll_id_o = pollId, text_o = trim txt,
                           votes = 0, order_index = index\<rparr>)
         (enumerate 0 texts)"

definition insert_options :: "env \<Rightarrow> request_site \<Rightarrow> database \<Rightarrow> PollOption list
    \<Rightarrow> PostgrestError + (PollOption list \<times> database)" where
  "insert_options e site db rows =
     answered e site
       (if distinct (map id_o rows @ map id_o (poll_options db))
        then Inr (rows, db\<lparr>poll_options := poll_options db @ rows\<rparr>)
        else Inl duplicate_key)"

text \<open>Deleting a poll row deletes its options too (\<open>ON DELETE CASCADE\<close>).\<close>

definition delete_poll :: "string \<Rightarrow> database \<Rightarrow> database" where
  "delete_poll pollId db =
     \<lparr>polls = filter (\<lambda>p. id_p p \<noteq> pollId) (polls db),
      poll_options = filter (\<lambda>opt. poll_id_o opt \<noteq> pollId) (poll_options db)\<rparr>"

definition options_of :: "database \<Rightarrow> string \<Rightarrow> PollOption list" where
  "options_of db pollId = filter (\<lambda>opt. poll_id_o opt = pollId) (poll_options db)"

definition getAuthenticatedClient :: "env \<Rightarrow> FormError + string" where
  "getAuthenticatedClient e =
     (case auth_user e of
        None \<Rightarrow> Inl (createFormError ''Authentication required'' Api)
      | Some user \<Rightarrow> Inr user)"

section \<open>Input validation of poll-actions\<close>

text \<open>\<open>if (!r.isValid && r.error) validationErrors[key] = r.error\<close>\<close>

definition record_error :: "string \<Rightarrow> ValidationResult \<Rightarrow> (string \<times> string) list" where
  "record_error key r =
     (case error_v r of
        Some m \<Rightarrow> if \<not> isValid r \<and> m \<noteq> [] then [(key, m)] else []
      | None \<Rightarrow> [])"

definition expiry_error :: "env \<Rightarrow> int option \<Rightarrow> (string \<times> string) list" where
  "expiry_error e expires =
     (case expires of
        Some expiresAt \<Rightarrow>
          if expiresAt \<le> now e
          then [(''expires_at'', ''Expiration date must be in the future'')] else []
      | None \<Rightarrow> [])"

definition validateCreatePollData :: "env \<Rightarrow> CreatePollData \<Rightarrow> 'a PollOperationResult" where
  "validateCreatePollData e d =
     validation_result
       (record_error ''title'' (validatePollTitle (title_c d))
        @ (case description_c d of
             Some descr \<Rightarrow>
               if descr \<noteq> [] then record_error ''description'' (validatePollDescription descr)
               else []
           | None \<Rightarrow> [])
        @ record_error ''options'' (validatePollOptions (options_c d))
        @ expiry_error e (expires_at_c d))"

definition validateUpdatePollData :: "env \<Rightarrow> UpdatePollData \<Rightarrow> 'a PollOperationResult" where
  "validateUpdatePollData e d =
     validation_result
       ((case title_u d of
           Some ttl \<Rightarrow> record_error ''title'' (validatePollTitle ttl) | None \<Rightarrow> [])
        @ (case description_u d of
             Some descr \<Rightarrow> record_error ''description'' (validatePollDescription descr)
           | None \<Rightarrow> [])
        @ (case options_u d of
             Some opts \<Rightarrow> record_error ''options'' (validatePollOptions opts) | None \<Rightarrow> [])
        @ expiry_error e (expires_at_u d))"

definition validateVoteData :: "VoteData \<Rightarrow> 'a PollOperationResult" where
  "validateVoteData d =
     validation_result
       ((if poll_id d = [] \<or> trim (poll_id d) = [] then [(''poll_id'', ''Poll ID is required'')]
         else [])
        @ (if option_id d = [] \<or> trim (option_id d) = []
           then [(''option_id'', ''Option ID is required'')] else []))"

section \<open>Poll operations\<close>

subsection \<open>createPoll\<close>

definition trimmed_or_null :: "string option \<Rightarrow> string option" where
  "trimmed_or_null d =
     (case d of None \<Rightarrow> None | Some s \<Rightarrow> if trim s = [] then None else Some (trim s))"

definition createPoll :: "env \<Rightarrow> database \<Rightarrow> CreatePollData
    \<Rightarrow> Poll PollOperationResult \<times> database" where
  "createPoll e db pollData =
     (let validation = validateCreatePollData e pollData
      in if \<not> success validation then (validation, db)
         else case getAuthenticatedClient e of
           Inl thrown \<Rightarrow> (createErrorResponse (of_FormError thrown), db)
         | Inr user \<Rightarrow>
            (case insert_poll e db (trim (title_c pollData))
                    (trimmed_or_null (description_c pollData)) user (expires_at_c pollData) of
               Inl pollError \<Rightarrow> (handleDatabaseError pollError, db)
             | Inr (poll, db1) \<Rightarrow>
                (case insert_options e InsertOptions db1
                        (optionsData e (id_p poll) (options_c pollData)) of
                   Inl optionsError \<Rightarrow>
                     (handleDatabaseError optionsError,
                      (case fault e CleanupPoll of
                         None \<Rightarrow> delete_poll (id_p poll) db1 | Some _ \<Rightarrow> db1))
                 | Inr (opts, db2) \<Rightarrow>
                     (createSuccessResponse
                        (poll_row.extend poll \<lparr>options = opts, total_votes = 0\<rparr>), db2))))"

subsection \<open>getPoll and getPolls\<close>

text \<open>
  \<open>select('*, poll_options (*)').eq('id', pollId).single()\<close>: the poll row with the
  rows of \<open>poll_options\<close> that reference it.
\<close>

definition select_poll_with_options :: "env \<Rightarrow> database \<Rightarrow> string
    \<Rightarrow> PostgrestError + (poll_row \<times> PollOption list)" where
  "select_poll_with_options e db pollId =
     answered e SelectPollWithOptions
       (case single (filter (\<lambda>p. id_p p = pollId) (polls db)) of
          Inl err \<Rightarrow> Inl err
        | Inr poll \<Rightarrow> Inr (poll, options_of db pollId))"

text \<open>\<open>opts.reduce((sum, option) => sum + option.votes, 0) || 0\<close>\<close>

definition totalVotes :: "PollOption list \<Rightarrow> int" where
  "totalVotes opts =
     (let s = foldl (\<lambda>sum opt. sum + votes opt) 0 opts in if s = 0 then 0 else s)"

definition completePoll :: "poll_row \<Rightarrow> PollOption list \<Rightarrow> Poll" where
  "completePoll poll opts =
     poll_row.extend poll \<lparr>options = opts, total_votes = totalVotes opts\<rparr>"

definition getPoll :: "env \<Rightarrow> database \<Rightarrow> string \<Rightarrow> Poll PollOperationResult" where
  "getPoll e db pollId =
     (case select_poll_with_options e db pollId of
        Inl pollError \<Rightarrow> handleDatabaseError pollError
      | Inr (poll, opts) \<Rightarrow> createSuccessResponse (completePoll poll opts))"

text \<open>
  \<open>getPolls\<close>: newest first, filtered by creator when \<open>userId\<close> is given and not empty,
  cut to the rows \<open>offset .. offset + limit - 1\<close>; \<open>count\<close> is the number of rows before
  the cut. A range that starts below 0 is taken to be refused by the datastore.
\<close>

definition getPolls :: "env \<Rightarrow> database \<Rightarrow> int \<Rightarrow> int \<Rightarrow> string option
    \<Rightarrow> PollListResult PollOperationResult" where
  "getPolls e db page limit userId =
     (let offset = (page - 1) * limit;
          matching = filter (\<lambda>p. case userId of
                                   Some u \<Rightarrow> u = [] \<or> created_by p = u | None \<Rightarrow> True)
                       (sort_key (\<lambda>p. - created_at p) (polls db))
      in case answered e SelectPolls
                (if offset < 0 \<or> limit < 0
                 then Inl \<lparr>code = ''PGRST103'', message_pg = ''Requested range not satisfiable''\<rparr>
                 else Inr (take (nat limit) (drop (nat offset) matching), length matching)) of
           Inl err \<Rightarrow> handleDatabaseError err
         | Inr (rows, count) \<Rightarrow>
             createSuccessResponse
               \<lparr>polls_l = map (\<lambda>poll. completePoll poll (options_of db (id_p poll))) rows,
                total_l = count, page_l = page, limit_l = limit\<rparr>)"

subsection \<open>voteOnPoll\<close>

definition select_active_poll :: "env \<Rightarrow> database \<Rightarrow> string \<Rightarrow> PostgrestError + poll_row" where
  "select_active_poll e db pollId =
     answered e SelectActivePoll
       (single (filter (\<lambda>p. id_p p = pollId \<and> is_active p = True) (polls db)))"

definition has_expired :: "env \<Rightarrow> poll_row \<Rightarrow> bool" where
  "has_expired e poll = (case expires_at poll of Some t \<Rightarrow> t < now e | None \<Rightarrow> False)"

definition select_option :: "env \<Rightarrow> database \<Rightarrow> string \<Rightarrow> string \<Rightarrow> PostgrestError + PollOption" where
  "select_option e db optionId pollId =
     answered e SelectOption
       (single (filter (\<lambda>opt. id_o opt = optionId \<and> poll_id_o opt = pollId) (poll_options db)))"

text \<open>\<open>update({ votes: v }).eq('id', optionId)\<close>: every row with that identifier.\<close>

definition update_votes :: "env \<Rightarrow> database \<Rightarrow> string \<Rightarrow> int \<Rightarrow> PostgrestError + database" where
  "update_votes e db optionId v =
     answered e UpdateVotes
       (Inr (db\<lparr>poll_options :=
                 map (\<lambda>opt. if id_o opt = optionId then opt\<lparr>votes := v\<rparr> else opt)
                     (poll_options db)\<rparr>))"

definition api_failure :: "string \<Rightarrow> 'a PollOperationResult" where
  "api_failure msg = createErrorResponse (of_FormError (createFormError msg Api))"

definition voteOnPoll :: "env \<Rightarrow> database \<Rightarrow> VoteData \<Rightarrow> Poll PollOperationResult \<times> database" where
  "voteOnPoll e db voteData =
     (let validation = validateVoteData voteData
      in if \<not> success validation then (validation, db)
         else case getAuthenticatedClient e of
           Inl thrown \<Rightarrow> (createErrorResponse (of_FormError thrown), db)
         | Inr user \<Rightarrow>
            (case select_active_poll e db (poll_id voteData) of
               Inl pollError \<Rightarrow> (api_failure ''Poll not found or inactive'', db)
             | Inr poll \<Rightarrow>
                 if has_expired e poll then (api_failure ''This poll has expired'', db)
                 else (case select_option e db (option_id voteData) (poll_id voteData) of
                         Inl optionError \<Rightarrow> (api_failure ''Invalid option'', db)
                       | Inr opt \<Rightarrow>
                          (case update_votes e db (option_id voteData) (votes opt + 1) of
                             Inl voteError \<Rightarrow> (handleDatabaseError voteError, db)
                           | Inr db' \<Rightarrow> (getPoll e db' (poll_id voteData), db')))))"

subsection \<open>updatePoll\<close>

text \<open>
  \<open>checkPollOwnership (pollId, userId)\<close> starts with
  \<open>const user = userId || (await getCurrentUser())\<close> and ends with
  \<open>return poll.created_by === user.id\<close>. So \<open>user\<close> is the identifier string when the
  caller passes a non-empty one, and the user object otherwise; \<open>user.id\<close> of a string
  is \<open>undefined\<close>, which no \<open>created_by\<close> equals.
\<close>

datatype js_user = IdString string | UserObject string

definition dot_id :: "js_user \<Rightarrow> string option" where
  "dot_id user = (case user of IdString s \<Rightarrow> None | UserObject i \<Rightarrow> Some i)"

definition checkPollOwnership :: "env \<Rightarrow> database \<Rightarrow> string \<Rightarrow> string option \<Rightarrow> FormError + bool" where
  "checkPollOwnership e db pollId userId =
     (case (case userId of
              Some s \<Rightarrow> if s \<noteq> [] then Inr (IdString s)
                        else map_sum (\<lambda>x. x) UserObject (getAuthenticatedClient e)
            | None \<Rightarrow> map_sum (\<lambda>x. x) UserObject (getAuthenticatedClient e)) of
        Inl thrown \<Rightarrow> Inl thrown
      | Inr user \<Rightarrow>
          (case answered e SelectCreatedBy (single (filter (\<lambda>p. id_p p = pollId) (polls db))) of
             Inl err \<Rightarrow> Inr False
           | Inr poll \<Rightarrow> Inr (Some (created_by poll) = dot_id user)))"

definition pollUpdate :: "env \<Rightarrow> UpdatePollData \<Rightarrow> poll_row \<Rightarrow> poll_row" where
  "pollUpdate e d p =
     p\<lparr>updated_at := now e,
       title := (case title_u d of Some ttl \<Rightarrow> trim ttl | None \<Rightarrow> title p),
       description := (case description_u d of
                         Some descr \<Rightarrow> trimmed_or_null (Some descr) | None \<Rightarrow> description p),
       expires_at := (case expires_at_u d of Some t \<Rightarrow> Some t | None \<Rightarrow> expires_at p),
       is_active := (case is_active_u d of Some b \<Rightarrow> b | None \<Rightarrow> is_active p)\<rparr>"

definition update_poll_row :: "env \<Rightarrow> database \<Rightarrow> string \<Rightarrow> (poll_row \<Rightarrow> poll_row)
    \<Rightarrow> (PostgrestError + poll_row) \<times> database" where
  "update_poll_row e db pollId f =
     (case fault e UpdatePollRow of
        Some err \<Rightarrow> (Inl err, db)
      | None \<Rightarrow>
          (let db' = db\<lparr>polls := map (\<lambda>p. if id_p p = pollId then f p else p) (polls db)\<rparr>
           in (single (filter (\<lambda>p. id_p p = pollId) (polls db')), db')))"

definition delete_options :: "env \<Rightarrow> database \<Rightarrow> string \<Rightarrow> PostgrestError + database" where
  "delete_options e db pollId =
     answered e DeleteOptions
       (Inr (db\<lparr>poll_options := filter (\<lambda>opt. poll_id_o opt \<noteq> pollId) (poll_options db)\<rparr>))"

definition updatePoll :: "env \<Rightarrow> database \<Rightarrow> string \<Rightarrow> UpdatePollData
    \<Rightarrow> Poll PollOperationResult \<times> database" where
  "updatePoll e db pollId updateData =
     (let validation = validateUpdatePollData e updateData
      in if \<not> success validation then (validation, db)
         else case getAuthenticatedClient e of
           Inl thrown \<Rightarrow> (createErrorResponse (of_FormError thrown), db)
         | Inr user \<Rightarrow>
            (case checkPollOwnership e db pollId (Some user) of
               Inl thrown \<Rightarrow> (createErrorResponse (of_FormError thrown), db)
             | Inr isOwner \<Rightarrow>
                 if \<not> isOwner then (api_failure ''You can only update your own polls'', db)
                 else (case update_poll_row e db pollId (pollUpdate e updateData) of
                         (Inl pollError, db1) \<Rightarrow> (handleDatabaseError pollError, db1)
                       | (Inr poll, db1) \<Rightarrow>
                          (case options_u updateData of
                             Some texts \<Rightarrow>
                               (case delete_options e db1 pollId of
                                  Inl deleteError \<Rightarrow> (handleDatabaseError deleteError, db1)
                                | Inr db2 \<Rightarrow>
                                   (case insert_options e ReinsertOptions db2
                                           (optionsData e pollId texts) of
                                      Inl optionsError \<Rightarrow> (handleDatabaseError optionsError, db2)
                                    | Inr (opts, db3) \<Rightarrow>
                                        (createSuccessResponse (completePoll poll opts), db3)))
                           | None \<Rightarrow>
                               (case fault e SelectOptionsOfPoll of
                                  Some _ \<Rightarrow> (createSuccessResponse (completePoll poll []), db1)
                                | None \<Rightarrow>
                                    (createSuccessResponse
                                       (completePoll poll
                                          (sort_key order_index (options_of db1 pollId))),
                                     db1))))))"

section \<open>Vote calls that overlap\<close>

text \<open>
  \<open>voteOnPoll\<close> is an \<open>async\<close> function: it runs until its next \<open>await\<close> of a
  datastore request, and other calls run while it waits. Between two requests it keeps
  what it has read. A call in flight is therefore in one of these states, and one step
  takes it through one request.
\<close>

datatype vote_task =
    Start
  | PollChecked
  | OptionRead PollOption
  | Written
  | Finished "Poll PollOperationResult"

fun vote_step :: "env \<Rightarrow> VoteData \<Rightarrow> vote_task \<Rightarrow> database \<Rightarrow> vote_task \<times> database" where
  "vote_step e voteData Start db =
     (let validation = validateVoteData voteData
      in if \<not> success validation then (Finished validation, db)
         else case getAuthenticatedClient e of
           Inl thrown \<Rightarrow> (Finished (createErrorResponse (of_FormError thrown)), db)
         | Inr user \<Rightarrow>
            (case select_active_poll e db (poll_id voteData) of
               Inl pollError \<Rightarrow> (Finished (api_failure ''Poll not found or inactive''), db)
             | Inr poll \<Rightarrow>
                 if has_expired e poll then (Finished (api_failure ''This poll has expired''), db)
                 else (PollChecked, db)))"
| "vote_step e voteData PollChecked db =
     (case select_option e db (option_id voteData) (poll_id voteData) of
        Inl optionError \<Rightarrow> (Finished (api_failure ''Invalid option''), db)
      | Inr opt \<Rightarrow> (OptionRead opt, db))"
| "vote_step e voteData (OptionRead opt) db =
     (case update_votes e db (option_id voteData) (votes opt + 1) of
        Inl voteError \<Rightarrow> (Finished (handleDatabaseError voteError), db)
      | Inr db' \<Rightarrow> (Written, db'))"
| "vote_step e voteData Written db = (Finished (getPoll e db (poll_id voteData)), db)"
| "vote_step e voteData (Finished r) db = (Finished r, db)"

text \<open>
  Several calls in flight over one datastore. A schedule names, step by step, the call
  whose pending request the datastore serves next.
\<close>

fun run :: "(env \<times> VoteData) list \<Rightarrow> nat list \<Rightarrow> vote_task list \<times> database
    \<Rightarrow> vote_task list \<times> database" where
  "run calls [] s = s"
| "run calls (i # schedule) (tasks, db) =
     (if i < length tasks \<and> i < length calls
      then (let (t, db') = vote_step (fst (calls ! i)) (snd (calls ! i)) (tasks ! i) db
            in run calls schedule (tasks[i := t], db'))
      else run calls schedule (tasks, db))"

text \<open>A call that has returned, and returned success.\<close>

definition succeeded :: "vote_task \<Rightarrow> bool" where
  "succeeded task = (case task of Finished r \<Rightarrow> success r | _ \<Rightarrow> False)"

text \<open>
  The votes that the poll a call has returned shows for option \<open>optionId\<close>.
\<close>

definition snapshot_votes :: "vote_task \<Rightarrow> string \<Rightarrow> int list" where
  "snapshot_votes task optionId =
     (case task of
        Finished r \<Rightarrow>
          (case data r of
             Some p \<Rightarrow> map votes (filter (\<lambda>opt. id_o opt = optionId) (options p))
           | None \<Rightarrow> [])
      | _ \<Rightarrow> [])"

text \<open>The vote counts of the rows that are option \<open>optionId\<close> of poll \<open>pollId\<close>.\<close>

definition votes_of :: "database \<Rightarrow> string \<Rightarrow> string \<Rightarrow> int list" where
  "votes_of db pollId optionId =
     map votes (filter (\<lambda>opt. id_o opt = optionId \<and> poll_id_o opt = pollId) (poll_options db))"


text \<open>
  Calls that change the datastore, made one at a time: each runs to its end before the
  next starts. \<open>getPoll\<close> and \<open>getPolls\<close> return no datastore and so change none.
\<close>

datatype call = Vote env VoteData | Create env CreatePollData

fun perform :: "call \<Rightarrow> database \<Rightarrow> database" where
  "perform (Vote e voteData) db = snd (voteOnPoll e db voteData)"
| "perform (Create e pollData) db = snd (createPoll e db pollData)"

fun perform_all :: "call list \<Rightarrow> database \<Rightarrow> database" where
  "perform_all [] db = db"
| "perform_all (c # cs) db = perform_all cs (perform c db)"

section \<open>Integrity of the datastore\<close>

text \<open>
  The constraints of the schema: \<open>id\<close> is the primary key of both tables, and
  \<open>poll_options.poll_id\<close> references \<open>polls.id\<close>.
\<close>

definition db_ok :: "database \<Rightarrow> bool" where
  "db_ok db =
     (distinct (map id_p (polls db)) \<and> distinct (map id_o (poll_options db))
      \<and> (\<forall>opt \<in> set (poll_options db). poll_id_o opt \<in> set (map id_p (polls db))))"

text \<open>
  No option row of \<open>db\<close> is missing from \<open>db'\<close> or has fewer votes there.
\<close>

definition never_lowered :: "database \<Rightarrow> database \<Rightarrow> bool" where
  "never_lowered db db' =
     (\<forall>opt \<in> set (poll_options db).
        \<exists>opt' \<in> set (poll_options db').
          id_o opt' = id_o opt \<and> poll_id_o opt' = poll_id_o opt \<and> votes opt \<le> votes opt')"

section \<open>The broadcast hub\<close>

text \<open>
  The repository's WebSocket server keeps no registry of its own: \<open>broadcastVoteUpdate\<close>
  sends to \<open>wss.clients\<close>, the set that the \<open>ws\<close> library maintains, and the
  \<open>close\<close> handler only logs. The operations \<open>register\<close> and \<open>unregister\<close> of the
  spec's hub have no code in the repository. A connection is an opaque handle; the
  registry holds each registered connection once, in the order of registration.
\<close>

type_synonym connection = nat

type_synonym hub = "connection list"

text \<open>
  Modelled from the spec: \<open>register (connection)\<close>, which is missing from the source,
  "adds a connection to the registry".
\<close>

definition register :: "connection \<Rightarrow> hub \<Rightarrow> hub" where
  "register c h = (if c \<in> set h then h else h @ [c])"

text \<open>
  Modelled from the spec: \<open>unregister (connection)\<close>, which is missing from the source,
  "removes a connection"; on a connection that is not registered it is "a no-op, not an
  error".
\<close>

definition unregister :: "connection \<Rightarrow> hub \<Rightarrow> hub" where
  "unregister c h = filter (\<lambda>d. d \<noteq> c) h"

section \<open>Example data\<close>

text \<open>
  A signed-in user, a clock at 100, a datastore that answers every request, and three
  polls: \<open>p1\<close> open, \<open>p2\<close> deactivated and past its expiry, \<open>p3\<close> active and past its
  expiry.
\<close>

definition no_fault :: "request_site \<Rightarrow> PostgrestError option" where
  "no_fault site = None"

definition env0 :: env where
  "env0 = \<lparr>auth_user = Some ''u1'', now = 100,
           gen_id = (\<lambda>n. ''n'' @ string_of_nat n), fault = no_fault\<rparr>"

definition poll1 :: poll_row where
  "poll1 = \<lparr>id_p = ''p1'', title = ''Lunch'', description = None, created_by = ''u1'',
            created_at = 1, updated_at = 1, expires_at = None, is_active = True\<rparr>"

definition poll2 :: poll_row where
  "poll2 = \<lparr>id_p = ''p2'', title = ''Venue'', description = None, created_by = ''u1'',
            created_at = 2, updated_at = 2, expires_at = Some 50, is_active = False\<rparr>"

definition poll3 :: poll_row where
  "poll3 = \<lparr>id_p = ''p3'', title = ''Theme'', description = None, created_by = ''u2'',
            created_at = 3, updated_at = 3, expires_at = Some 50, is_active = True\<rparr>"

definition db0 :: database where
  "db0 = \<lparr>polls = [poll1, poll2, poll3],
          poll_options =
            [\<lparr>id_o = ''a'', poll_id_o = ''p1'', text_o = ''Soup'', votes = 0, order_index = 0\<rparr>,
             \<lparr>id_o = ''b'', poll_id_o = ''p1'', text_o = ''Salad'', votes = 4, order_index = 1\<rparr>,
             \<lparr>id_o = ''c'', poll_id_o = ''p2'', text_o = ''Hall'', votes = 2, order_index = 0\<rparr>,
             \<lparr>id_o = ''d'', poll_id_o = ''p3'', text_o = ''Sea'', votes = 1, order_index = 0\<rparr>]\<rparr>"

definition vote_a :: VoteData where
  "vote_a = \<lparr>poll_id = ''p1'', option_id = ''a''\<rparr>"

text \<open>The datastore answers the read-back of \<open>getPoll\<close> with an error, and nothing else.\<close>

definition readback_fault :: "request_site \<Rightarrow> PostgrestError option" where
  "readback_fault site =
     (if site = SelectPollWithOptions
      then Some \<lparr>code = ''57014'', message_pg = ''canceling statement due to statement timeout''\<rparr>
      else None)"

definition lunch :: CreatePollData where
  "lunch = \<lparr>title_c = ''Dinner'', description_c = None, options_c = [''Rice'', ''Bread''],
            expires_at_c = None\<rparr>"

section \<open>What the validators reject\<close>

lemma set_size_distinct: "(set_size xs = length xs) = distinct xs"
  by (simp add: set_size_def)

lemma isValid_invalid [simp]: "\<not> isValid (invalid m)" "error_v (invalid m) = Some m"
  by (simp_all add: invalid_def)

lemma isValid_valid [simp]: "isValid valid"
  by (simp add: valid_def)

lemma validateEach_cases:
  "isValid (validateEach i opts) \<or> (\<exists>m. error_v (validateEach i opts) = Some m \<and> m \<noteq> [])"
proof (induction opts arbitrary: i)
  case Nil
  show ?case by simp
next
  case (Cons opt rest)
  show ?case
  proof (cases "isValid (validatePollOption opt)")
    case True
    then show ?thesis using Cons [of "i + 1"] by (simp add: Let_def)
  next
    case False
    then show ?thesis by (simp add: Let_def)
  qed
qed

lemma validatePollOptions_cases:
  "isValid (validatePollOptions opts)
   \<or> (\<exists>m. error_v (validatePollOptions opts) = Some m \<and> m \<noteq> [])"
  using validateEach_cases [of 0 opts]
  by (simp add: validatePollOptions_def Let_def)

lemma record_error_invalid:
  "\<not> isValid (validatePollOptions opts) \<Longrightarrow> record_error key (validatePollOptions opts) \<noteq> []"
  using validatePollOptions_cases [of opts]
  by (auto simp: record_error_def)

lemma validation_result_success: "success (validation_result errs) = (errs = [])"
  by (simp add: validation_result_def Let_def)

lemma validation_result_error:
  "errs \<noteq> [] \<Longrightarrow> error (validation_result errs) = Some (createFormError ''Validation failed'' Validation)"
  by (simp add: validation_result_def Let_def)

lemma validatePollOptions_valid_length:
  "isValid (validatePollOptions opts) \<Longrightarrow> 2 \<le> length opts \<and> length opts \<le> 10
     \<and> distinct (map (\<lambda>opt. toLowerCase (trim opt)) opts)"
  by (auto simp: validatePollOptions_def Let_def set_size_distinct split: if_splits)

lemma create_rejected:
  assumes "\<not> isValid (validatePollOptions (options_c d))"
  shows "createPoll e db d = (validateCreatePollData e d, db)
    \<and> \<not> success (validateCreatePollData e d :: Poll PollOperationResult)
    \<and> error (validateCreatePollData e d :: Poll PollOperationResult)
           = Some (createFormError ''Validation failed'' Validation)"
proof (intro conjI)
  show 2: "\<not> success (validateCreatePollData e d :: Poll PollOperationResult)"
    using record_error_invalid [OF assms]
    by (simp add: validateCreatePollData_def validation_result_success)
  show "createPoll e db d = (validateCreatePollData e d, db)"
    using 2 by (simp add: createPoll_def Let_def)
  show "error (validateCreatePollData e d :: Poll PollOperationResult)
           = Some (createFormError ''Validation failed'' Validation)"
    using record_error_invalid [OF assms]
    by (simp add: validateCreatePollData_def validation_result_error)
qed

lemma update_rejected:
  assumes "\<not> isValid (validatePollOptions opts)" "options_u d = Some opts"
  shows "updatePoll e db pollId d = (validateUpdatePollData e d, db)
    \<and> \<not> success (validateUpdatePollData e d :: Poll PollOperationResult)
    \<and> error (validateUpdatePollData e d :: Poll PollOperationResult)
           = Some (createFormError ''Validation failed'' Validation)"
proof (intro conjI)
  show 2: "\<not> success (validateUpdatePollData e d :: Poll PollOperationResult)"
    using record_error_invalid [OF assms(1)] assms(2)
    by (simp add: validateUpdatePollData_def validation_result_success)
  show "updatePoll e db pollId d = (validateUpdatePollData e d, db)"
    using 2 by (simp add: updatePoll_def Let_def)
  show "error (validateUpdatePollData e d :: Poll PollOperationResult)
           = Some (createFormError ''Validation failed'' Validation)"
    using record_error_invalid [OF assms(1)] assms(2)
    by (simp add: validateUpdatePollData_def validation_result_error)
qed

text \<open>
  C10: \<open>validatePollOptions\<close> rejects every list of more than 10 options and every
  list in which two options are equal once trimmed and put in lower case, whether or not
  the strings as given differ. \<open>createPoll\<close>, and \<open>updatePoll\<close> when options are
  supplied, then answer with the error \<open>Validation failed\<close> and leave the datastore as
  it was.
\<close>

theorem validatePollOptions_rejects:
  assumes "10 < length opts \<or> \<not> distinct (map (\<lambda>opt. toLowerCase (trim opt)) opts)"
  shows "\<not> isValid (validatePollOptions opts)
    \<and> (options_c c = opts \<longrightarrow>
         \<not> success (fst (createPoll e db c)) \<and> snd (createPoll e db c) = db
         \<and> error (fst (createPoll e db c)) = Some (createFormError ''Validation failed'' Validation))
    \<and> (options_u u = Some opts \<longrightarrow>
         \<not> success (fst (updatePoll e db pollId u)) \<and> snd (updatePoll e db pollId u) = db
         \<and> error (fst (updatePoll e db pollId u)) = Some (createFormError ''Validation failed'' Validation))"
proof -
  have inv: "\<not> isValid (validatePollOptions opts)"
    using assms validatePollOptions_valid_length [of opts] by auto
  show ?thesis
    using inv create_rejected [where d = c and e = e and db = db]
      update_rejected [OF inv, where d = u and e = e and db = db and pollId = pollId]
    by auto
qed



text \<open>
  The two options \<open>Red\<close> and \<open> red \<close> differ as strings and are rejected as
  duplicates; so is a list of 11 options.
\<close>

theorem validatePollOptions_rejects_witness:
  "''Red'' \<noteq> '' red ''
   \<and> \<not> isValid (validatePollOptions [''Red'', '' red ''])
   \<and> \<not> success (fst (createPoll env0 db0 (lunch\<lparr>options_c := [''Red'', '' red '']\<rparr>)))
   \<and> snd (createPoll env0 db0 (lunch\<lparr>options_c := [''Red'', '' red '']\<rparr>)) = db0
   \<and> \<not> isValid (validatePollOptions (replicate 11 ''x''))"
proof -
  have h: "10 < length [''Red'', '' red '']
      \<or> \<not> distinct (map (\<lambda>opt. toLowerCase (trim opt)) [''Red'', '' red ''])"
    by code_simp
  have k: "10 < length (replicate 11 ''x'')
      \<or> \<not> distinct (map (\<lambda>opt. toLowerCase (trim opt)) (replicate 11 ''x''))"
    by simp
  show ?thesis
    using validatePollOptions_rejects [OF h, of "lunch\<lparr>options_c := [''Red'', '' red '']\<rparr>" env0 db0]
      validatePollOptions_rejects [OF k]
    by simp
qed

section \<open>Requests and results\<close>

lemma answered_Inr: "answered e site x = Inr y \<longleftrightarrow> fault e site = None \<and> x = Inr y"
  by (simp add: answered_def split: option.splits)

lemma answered_no_fault: "fault e site = None \<Longrightarrow> answered e site x = x"
  by (simp add: answered_def)

lemma single_Inr: "single rows = Inr r \<longleftrightarrow> rows = [r]"
  by (simp add: single_def split: list.splits)

section \<open>Totals\<close>

lemma foldl_votes: "foldl (\<lambda>sum opt. sum + votes opt) a opts = a + sum_list (map votes opts)"
  by (induction opts arbitrary: a) simp_all

lemma totalVotes_sum: "totalVotes opts = sum_list (map votes opts)"
  by (simp add: totalVotes_def foldl_votes Let_def)

lemma completePoll_fields [simp]:
  "options (completePoll poll opts) = opts"
  "total_votes (completePoll poll opts) = sum_list (map votes opts)"
  "id_p (completePoll poll opts) = id_p poll"
  by (simp_all add: completePoll_def poll_row.defs totalVotes_sum)

lemma completePoll_row [simp]: "poll_row.truncate (completePoll poll opts) = poll"
  by (simp add: completePoll_def poll_row.defs)

lemma getPoll_data:
  "data (getPoll e db pollId) = Some p \<Longrightarrow>
     \<exists>row. filter (\<lambda>q. id_p q = pollId) (polls db) = [row]
          \<and> p = completePoll row (options_of db pollId)"
  by (auto simp: getPoll_def select_poll_with_options_def answered_def single_Inr
        handleDatabaseError_def createErrorResponse_def createSuccessResponse_def
      split: option.splits sum.splits prod.splits if_splits)

lemma optionsData_votes: "opt \<in> set (optionsData e pollId texts) \<Longrightarrow> votes opt = 0"
  by (auto simp: optionsData_def)

lemma optionsData_length [simp]: "length (optionsData e pollId texts) = length texts"
  by (simp add: optionsData_def)

lemma sum_votes_optionsData: "sum_list (map votes (optionsData e pollId texts)) = 0"
  by (simp add: optionsData_def  comp_def case_prod_beta)


lemma insert_options_Inr:
  "insert_options e site db rows = Inr (opts, db') \<longleftrightarrow>
     fault e site = None \<and> distinct (map id_o rows @ map id_o (poll_options db))
     \<and> opts = rows \<and> db' = db\<lparr>poll_options := poll_options db @ rows\<rparr>"
  by (auto simp: insert_options_def answered_def split: option.splits)

lemma insert_poll_Inr:
  "insert_poll e db ttl descr creator expires = Inr (row, db') \<Longrightarrow>
     fault e InsertPoll = None \<and> id_p row = gen_id e 0 \<and> gen_id e 0 \<notin> set (map id_p (polls db))
     \<and> db' = db\<lparr>polls := polls db @ [row]\<rparr>"
  by (auto simp: insert_poll_def answered_def Let_def split: option.splits if_splits)

lemma failure_fields [simp]:
  "\<not> success (createErrorResponse err)" "data (createErrorResponse err) = None"
  "\<not> success (handleDatabaseError pe)" "data (handleDatabaseError pe) = None"
  "\<not> success (api_failure msg)" "data (api_failure msg) = None"
  "data (validation_result errs) = None"
  by (simp_all add: createErrorResponse_def handleDatabaseError_def api_failure_def
        validation_result_def Let_def)

lemma success_fields [simp]:
  "success (createSuccessResponse d)" "data (createSuccessResponse d) = Some d"
  by (simp_all add: createSuccessResponse_def)

lemma createPoll_success:
  assumes "createPoll e db d = (r, db')" and "success r"
  shows "\<exists>row. isValid (validatePollOptions (options_c d))
           \<and> gen_id e 0 \<notin> set (map id_p (polls db)) \<and> id_p row = gen_id e 0
           \<and> distinct (map id_o (optionsData e (id_p row) (options_c d)) @ map id_o (poll_options db))
           \<and> r = createSuccessResponse
                 (poll_row.extend row
                    \<lparr>options = optionsData e (id_p row) (options_c d), total_votes = 0\<rparr>)
           \<and> db' = db\<lparr>polls := polls db @ [row],
                    poll_options := poll_options db @ optionsData e (id_p row) (options_c d)\<rparr>"
proof -
  have ok: "success (validateCreatePollData e d :: Poll PollOperationResult)"
    using assms by (auto simp: createPoll_def Let_def split: if_splits)
  have v: "isValid (validatePollOptions (options_c d))"
    using ok record_error_invalid [of "options_c d" "''options''"]
    by (auto simp: validateCreatePollData_def validation_result_success)
  obtain user where u: "getAuthenticatedClient e = Inr user"
    using assms ok by (auto simp: createPoll_def Let_def split: sum.splits)
  obtain row db1 where ip: "insert_poll e db (trim (title_c d)) (trimmed_or_null (description_c d))
       user (expires_at_c d) = Inr (row, db1)"
    using assms ok u by (auto simp: createPoll_def Let_def split: sum.splits)
  obtain opts db2 where io: "insert_options e InsertOptions db1 (optionsData e (id_p row) (options_c d))
       = Inr (opts, db2)"
    using assms ok u ip by (auto simp: createPoll_def Let_def split: sum.splits)
  have r: "r = createSuccessResponse (poll_row.extend row \<lparr>options = opts, total_votes = 0\<rparr>)"
    and d': "db' = db2"
    using assms(1) ok u ip io by (auto simp: createPoll_def Let_def)
  show ?thesis
    using v insert_poll_Inr [OF ip] io r d'
    by (intro exI [of _ row]) (auto simp: insert_options_Inr)
qed

lemma getPolls_data:
  "data (getPolls e db page limit userId) = Some l \<Longrightarrow>
     \<forall>q \<in> set (polls_l l). \<exists>row. q = completePoll row (options_of db (id_p row))"
  by (auto simp: getPolls_def Let_def split: sum.splits prod.splits)

text \<open>
  C9: in every \<open>Poll\<close> that \<open>getPoll\<close>, \<open>getPolls\<close> or \<open>createPoll\<close> returns,
  \<open>total_votes\<close> is the sum of the \<open>votes\<close> of its options (so 0 when it has none).
\<close>

theorem total_votes_is_sum:
  "(data (getPoll e db pollId) = Some p \<longrightarrow> total_votes p = sum_list (map votes (options p)))
   \<and> (data (getPolls e db page limit userId) = Some l \<longrightarrow>
        (\<forall>q \<in> set (polls_l l). total_votes q = sum_list (map votes (options q))))
   \<and> (data (fst (createPoll e db d)) = Some c \<longrightarrow>
        total_votes c = sum_list (map votes (options c)))"
proof (intro conjI impI)
  assume "data (getPoll e db pollId) = Some p"
  from getPoll_data [OF this] show "total_votes p = sum_list (map votes (options p))"
    by auto
next
  assume "data (getPolls e db page limit userId) = Some l"
  from getPolls_data [OF this]
  show "\<forall>q \<in> set (polls_l l). total_votes q = sum_list (map votes (options q))"
    by auto
next
  assume a: "data (fst (createPoll e db d)) = Some c"
  obtain r db' where cp: "createPoll e db d = (r, db')"
    by (cases "createPoll e db d")
  have "success r"
  proof (rule ccontr)
    assume "\<not> success r"
    then have "data r = None"
      using cp
      by (auto simp: createPoll_def Let_def validateCreatePollData_def
          split: if_splits sum.splits prod.splits)
    then show False using a cp by simp
  qed
  from createPoll_success [OF cp this] a cp
  show "total_votes c = sum_list (map votes (options c))"
    by (auto simp: poll_row.defs sum_votes_optionsData)
qed

text \<open>
  On the example data: poll \<open>p1\<close> has 0 + 4 votes, and a poll just created has none.
\<close>

theorem total_votes_is_sum_witness:
  "data (getPoll env0 db0 ''p1'') = Some (the (data (getPoll env0 db0 ''p1'')))
   \<and> total_votes (the (data (getPoll env0 db0 ''p1''))) = 4
   \<and> data (getPolls env0 db0 1 10 None) = Some (the (data (getPolls env0 db0 1 10 None)))
   \<and> map total_votes (polls_l (the (data (getPolls env0 db0 1 10 None)))) = [1, 2, 4]
   \<and> data (fst (createPoll env0 db0 lunch)) = Some (the (data (fst (createPoll env0 db0 lunch))))
   \<and> total_votes (the (data (fst (createPoll env0 db0 lunch)))) = 0"
proof -
  have g: "data (getPoll env0 db0 ''p1'') = Some (the (data (getPoll env0 db0 ''p1'')))"
    by code_simp
  have gs: "data (getPolls env0 db0 1 10 None) = Some (the (data (getPolls env0 db0 1 10 None)))"
    by code_simp
  have c: "data (fst (createPoll env0 db0 lunch)) = Some (the (data (fst (createPoll env0 db0 lunch))))"
    by code_simp
  have v1: "sum_list (map votes (options (the (data (getPoll env0 db0 ''p1''))))) = 4"
    by code_simp
  have v2: "map (\<lambda>q. sum_list (map votes (options q)))
              (polls_l (the (data (getPolls env0 db0 1 10 None)))) = [1, 2, 4]"
    by code_simp
  have v3: "sum_list (map votes (options (the (data (fst (createPoll env0 db0 lunch)))))) = 0"
    by code_simp
  have t: "total_votes (the (data (getPoll env0 db0 ''p1'')))
               = sum_list (map votes (options (the (data (getPoll env0 db0 ''p1'')))))
           \<and> (\<forall>q \<in> set (polls_l (the (data (getPolls env0 db0 1 10 None)))).
              total_votes q = sum_list (map votes (options q)))
           \<and> total_votes (the (data (fst (createPoll env0 db0 lunch))))
               = sum_list (map votes (options (the (data (fst (createPoll env0 db0 lunch))))))"
    using total_votes_is_sum [of env0 db0 "''p1''" "the (data (getPoll env0 db0 ''p1''))"
        1 10 None "the (data (getPolls env0 db0 1 10 None))" lunch
        "the (data (fst (createPoll env0 db0 lunch)))"] g gs c
    by blast
  have t1: "total_votes (the (data (getPoll env0 db0 ''p1''))) = 4"
    using t v1 by linarith
  have "map total_votes (polls_l (the (data (getPolls env0 db0 1 10 None))))
          = map (\<lambda>q. sum_list (map votes (options q)))
              (polls_l (the (data (getPolls env0 db0 1 10 None))))"
    by (rule map_cong [OF refl]) (use t in blast)
  then have t2: "map total_votes (polls_l (the (data (getPolls env0 db0 1 10 None)))) = [1, 2, 4]"
    by (simp only: v2)
  have t3: "total_votes (the (data (fst (createPoll env0 db0 lunch)))) = 0"
    using t v3 by linarith
  show ?thesis using g gs c t1 t2 t3 by blast
qed

section \<open>The paths through voteOnPoll\<close>

lemma validateVoteData_success:
  "success (validateVoteData vd) = (trim (poll_id vd) \<noteq> [] \<and> trim (option_id vd) \<noteq> [])"
  by (auto simp: validateVoteData_def validation_result_success trim_def)

lemma getAuthenticatedClient_Inr: "getAuthenticatedClient e = Inr u \<longleftrightarrow> auth_user e = Some u"
  by (simp add: getAuthenticatedClient_def split: option.splits)

lemma update_votes_Inr:
  "update_votes e db optionId v = Inr db' \<longleftrightarrow>
     fault e UpdateVotes = None
     \<and> db' = db\<lparr>poll_options :=
                 map (\<lambda>opt. if id_o opt = optionId then opt\<lparr>votes := v\<rparr> else opt)
                     (poll_options db)\<rparr>"
  by (auto simp: update_votes_def answered_def split: option.splits)

lemma update_votes_Inl: "update_votes e db optionId v = Inl err \<longleftrightarrow> fault e UpdateVotes = Some err"
  by (auto simp: update_votes_def answered_def split: option.splits)

text \<open>The seven ways through \<open>voteOnPoll\<close>.\<close>

lemma voteOnPoll_outcome:
  "(\<not> (trim (poll_id vd) \<noteq> [] \<and> trim (option_id vd) \<noteq> [])
      \<and> voteOnPoll e db vd = (validateVoteData vd, db))
   \<or> (trim (poll_id vd) \<noteq> [] \<and> trim (option_id vd) \<noteq> [] \<and> auth_user e = None
      \<and> voteOnPoll e db vd
          = (createErrorResponse (of_FormError (createFormError ''Authentication required'' Api)), db))
   \<or> (trim (poll_id vd) \<noteq> [] \<and> trim (option_id vd) \<noteq> [] \<and> auth_user e \<noteq> None
      \<and> (\<exists>err. select_active_poll e db (poll_id vd) = Inl err)
      \<and> voteOnPoll e db vd = (api_failure ''Poll not found or inactive'', db))
   \<or> (trim (poll_id vd) \<noteq> [] \<and> trim (option_id vd) \<noteq> [] \<and> auth_user e \<noteq> None
      \<and> (\<exists>poll. select_active_poll e db (poll_id vd) = Inr poll \<and> has_expired e poll)
      \<and> voteOnPoll e db vd = (api_failure ''This poll has expired'', db))
   \<or> (trim (poll_id vd) \<noteq> [] \<and> trim (option_id vd) \<noteq> [] \<and> auth_user e \<noteq> None
      \<and> (\<exists>poll. select_active_poll e db (poll_id vd) = Inr poll \<and> \<not> has_expired e poll)
      \<and> (\<exists>err. select_option e db (option_id vd) (poll_id vd) = Inl err)
      \<and> voteOnPoll e db vd = (api_failure ''Invalid option'', db))
   \<or> (trim (poll_id vd) \<noteq> [] \<and> trim (option_id vd) \<noteq> [] \<and> auth_user e \<noteq> None
      \<and> (\<exists>poll. select_active_poll e db (poll_id vd) = Inr poll \<and> \<not> has_expired e poll)
      \<and> (\<exists>opt err. select_option e db (option_id vd) (poll_id vd) = Inr opt
            \<and> fault e UpdateVotes = Some err
            \<and> voteOnPoll e db vd = (handleDatabaseError err, db)))
   \<or> (trim (poll_id vd) \<noteq> [] \<and> trim (option_id vd) \<noteq> [] \<and> auth_user e \<noteq> None
      \<and> (\<exists>poll. select_active_poll e db (poll_id vd) = Inr poll \<and> \<not> has_expired e poll)
      \<and> (\<exists>opt db'. select_option e db (option_id vd) (poll_id vd) = Inr opt
            \<and> fault e UpdateVotes = None
            \<and> db' = db\<lparr>poll_options :=
                 map (\<lambda>x. if id_o x = option_id vd then x\<lparr>votes := votes opt + 1\<rparr> else x)
                     (poll_options db)\<rparr>
            \<and> voteOnPoll e db vd = (getPoll e db' (poll_id vd), db')))"
proof (cases "trim (poll_id vd) \<noteq> [] \<and> trim (option_id vd) \<noteq> []")
  case False
  then have "\<not> success (validateVoteData vd :: Poll PollOperationResult)"
    by (simp add: validateVoteData_success)
  then have "voteOnPoll e db vd = (validateVoteData vd, db)"
    by (simp add: voteOnPoll_def Let_def)
  with False show ?thesis by blast
next
  case ok: True
  then have s: "success (validateVoteData vd :: Poll PollOperationResult)"
    by (simp add: validateVoteData_success)
  show ?thesis
  proof (cases "auth_user e")
    case None
    then have "voteOnPoll e db vd
          = (createErrorResponse (of_FormError (createFormError ''Authentication required'' Api)), db)"
      using s by (simp add: voteOnPoll_def Let_def getAuthenticatedClient_def)
    with ok None show ?thesis by blast
  next
    case (Some u)
    then have a: "getAuthenticatedClient e = Inr u" "auth_user e \<noteq> None"
      by (simp_all add: getAuthenticatedClient_Inr)
    show ?thesis
    proof (cases "select_active_poll e db (poll_id vd)")
      case (Inl err)
      then have "voteOnPoll e db vd = (api_failure ''Poll not found or inactive'', db)"
        using s a by (simp add: voteOnPoll_def Let_def)
      with ok a Inl show ?thesis by blast
    next
      case p: (Inr poll)
      show ?thesis
      proof (cases "has_expired e poll")
        case True
        then have "voteOnPoll e db vd = (api_failure ''This poll has expired'', db)"
          using s a p by (simp add: voteOnPoll_def Let_def)
        with ok a p True show ?thesis by blast
      next
        case ne: False
        show ?thesis
        proof (cases "select_option e db (option_id vd) (poll_id vd)")
          case (Inl err)
          then have "voteOnPoll e db vd = (api_failure ''Invalid option'', db)"
            using s a p ne by (simp add: voteOnPoll_def Let_def)
          with ok a p ne Inl show ?thesis by blast
        next
          case so: (Inr opt)
          show ?thesis
          proof (cases "update_votes e db (option_id vd) (votes opt + 1)")
            case (Inl err)
            then have "voteOnPoll e db vd = (handleDatabaseError err, db)"
              using s a p ne so by (simp add: voteOnPoll_def Let_def)
            with ok a p ne so Inl show ?thesis by (simp add: update_votes_Inl)
          next
            case (Inr db')
            then have "voteOnPoll e db vd = (getPoll e db' (poll_id vd), db')"
              using s a p ne so by (simp add: voteOnPoll_def Let_def)
            with ok a p ne so Inr show ?thesis by (simp add: update_votes_Inr)
          qed
        qed
      qed
    qed
  qed
qed

lemma voteOnPoll_success:
  assumes "voteOnPoll e db vd = (r, db')" and "success r"
  shows "\<exists>poll opt. select_active_poll e db (poll_id vd) = Inr poll \<and> \<not> has_expired e poll
           \<and> select_option e db (option_id vd) (poll_id vd) = Inr opt
           \<and> db' = db\<lparr>poll_options :=
                 map (\<lambda>x. if id_o x = option_id vd then x\<lparr>votes := votes opt + 1\<rparr> else x)
                     (poll_options db)\<rparr>
           \<and> r = getPoll e db' (poll_id vd)"
  using voteOnPoll_outcome [of vd e db] assms
  by (elim disjE) (auto simp: validateVoteData_success)

lemma voteOnPoll_failure:
  assumes "voteOnPoll e db vd = (r, db')" and "\<not> success r"
  shows "db' = db
     \<or> (\<exists>poll opt. select_active_poll e db (poll_id vd) = Inr poll
           \<and> select_option e db (option_id vd) (poll_id vd) = Inr opt
           \<and> db' = db\<lparr>poll_options :=
                 map (\<lambda>x. if id_o x = option_id vd then x\<lparr>votes := votes opt + 1\<rparr> else x)
                     (poll_options db)\<rparr>
           \<and> r = getPoll e db' (poll_id vd))"
  using voteOnPoll_outcome [of vd e db] assms
  by (elim disjE) auto

lemma select_active_poll_Inr:
  "select_active_poll e db pollId = Inr poll \<longleftrightarrow>
     fault e SelectActivePoll = None
     \<and> filter (\<lambda>p. id_p p = pollId \<and> is_active p) (polls db) = [poll]"
  by (auto simp: select_active_poll_def answered_def single_Inr split: option.splits)

lemma select_option_Inr:
  "select_option e db optionId pollId = Inr opt \<longleftrightarrow>
     fault e SelectOption = None
     \<and> filter (\<lambda>x. id_o x = optionId \<and> poll_id_o x = pollId) (poll_options db) = [opt]"
  by (auto simp: select_option_def answered_def single_Inr split: option.splits)

lemma single_singleton [simp]: "single [r] = Inr r"
  by (simp add: single_def)

lemma getPoll_success:
  "fault e SelectPollWithOptions = None \<Longrightarrow> filter (\<lambda>p. id_p p = pollId) (polls db) = [row] \<Longrightarrow>
     getPoll e db pollId = createSuccessResponse (completePoll row (options_of db pollId))"
  by (simp add: getPoll_def select_poll_with_options_def answered_def single_def)

lemma getPoll_success_iff:
  "success (getPoll e db pollId) \<longleftrightarrow>
     fault e SelectPollWithOptions = None
     \<and> (\<exists>row. filter (\<lambda>p. id_p p = pollId) (polls db) = [row])"
  by (auto simp: getPoll_def select_poll_with_options_def answered_def single_Inr
      split: option.splits sum.splits)

text \<open>Under a key, a row found with a further condition is the only row with that key.\<close>

lemma filter_key_only:
  "distinct (map f xs) \<Longrightarrow> filter (\<lambda>x. f x = k \<and> P x) xs = [p] \<Longrightarrow> filter (\<lambda>x. f x = k) xs = [p]"
proof (induction xs)
  case Nil
  then show ?case by simp
next
  case (Cons x xs)
  show ?case
  proof (cases "f x = k")
    case True
    then have "k \<notin> f ` set xs"
      using Cons.prems(1) by simp
    then have none: "filter (\<lambda>y. f y = k) xs = []"
      by (auto simp: filter_empty_conv)
    then have "filter (\<lambda>y. f y = k \<and> P y) xs = []"
      by (auto simp: filter_empty_conv)
    with Cons.prems(2) True have "P x \<and> p = x"
      by (auto split: if_splits)
    with True none show ?thesis by simp
  next
    case False
    with Cons show ?thesis by simp
  qed
qed

lemma filter_key_member:
  "distinct (map f xs) \<Longrightarrow> p \<in> set xs \<Longrightarrow> f p = k \<Longrightarrow> filter (\<lambda>x. f x = k) xs = [p]"
proof (induction xs)
  case Nil
  then show ?case by simp
next
  case (Cons x xs)
  show ?case
  proof (cases "p = x")
    case True
    then have "k \<notin> f ` set xs"
      using Cons.prems by simp
    then have "filter (\<lambda>y. f y = k) xs = []"
      by (auto simp: filter_empty_conv)
    with True Cons.prems show ?thesis by simp
  next
    case False
    then have "f x \<noteq> k" using Cons.prems by force
    with False Cons show ?thesis by simp
  qed
qed

lemma filter_map_same:
  "(\<And>x. P (f x) = P x) \<Longrightarrow> filter P (map f xs) = map f (filter P xs)"
  by (induction xs) simp_all

lemma votes_of_after_update:
  assumes "filter (\<lambda>x. id_o x = oid \<and> poll_id_o x = pid) (poll_options db) = [opt]"
  shows "votes_of (db\<lparr>poll_options :=
             map (\<lambda>x. if id_o x = oid then x\<lparr>votes := v\<rparr> else x) (poll_options db)\<rparr>) pid oid = [v]"
proof -
  have "opt \<in> set (filter (\<lambda>x. id_o x = oid \<and> poll_id_o x = pid) (poll_options db))"
    by (simp add: assms)
  then have opt: "id_o opt = oid"
    by simp
  have "filter (\<lambda>x. id_o x = oid \<and> poll_id_o x = pid)
          (map (\<lambda>x. if id_o x = oid then x\<lparr>votes := v\<rparr> else x) (poll_options db))
        = map (\<lambda>x. if id_o x = oid then x\<lparr>votes := v\<rparr> else x)
            (filter (\<lambda>x. id_o x = oid \<and> poll_id_o x = pid) (poll_options db))"
    by (rule filter_map_same) simp
  also have "\<dots> = [opt\<lparr>votes := v\<rparr>]"
    by (simp add: assms opt)
  finally show ?thesis
    by (simp add: votes_of_def)
qed

lemma filter_filter_options:
  "filter (\<lambda>opt. id_o opt = oid) (options_of db pid)
     = filter (\<lambda>x. id_o x = oid \<and> poll_id_o x = pid) (poll_options db)"
  by (simp add: options_of_def conj_commute)

section \<open>A successful vote\<close>

text \<open>
  C6, as the code has it: a successful \<open>voteOnPoll\<close> that runs with no other call in
  between returns the full updated poll: the stored row of the voted poll, all of that
  poll's options as the datastore holds them after the call, and their total; in it the
  voted option, at \<open>n\<close> votes before the call, has \<open>n + 1\<close>.
\<close>

theorem voteOnPoll_returns_updated_snapshot:
  assumes "voteOnPoll e db vd = (r, db')" and "success r"
  shows "\<exists>p row n. data r = Some p
           \<and> row \<in> set (polls db') \<and> id_p row = poll_id vd
           \<and> poll_row.truncate p = row
           \<and> options p = options_of db' (poll_id vd)
           \<and> total_votes p = sum_list (map votes (options p))
           \<and> votes_of db (poll_id vd) (option_id vd) = [n]
           \<and> map votes (filter (\<lambda>opt. id_o opt = option_id vd) (options p)) = [n + 1]"
proof -
  from voteOnPoll_success [OF assms] obtain opt where
    so: "select_option e db (option_id vd) (poll_id vd) = Inr opt"
    and d': "db' = db\<lparr>poll_options :=
                 map (\<lambda>x. if id_o x = option_id vd then x\<lparr>votes := votes opt + 1\<rparr> else x)
                     (poll_options db)\<rparr>"
    and r: "r = getPoll e db' (poll_id vd)"
    by blast
  from assms(2) r obtain row where
    row: "filter (\<lambda>p. id_p p = poll_id vd) (polls db') = [row]"
    and nf: "fault e SelectPollWithOptions = None"
    by (auto simp: getPoll_success_iff)
  have sel: "filter (\<lambda>x. id_o x = option_id vd \<and> poll_id_o x = poll_id vd) (poll_options db) = [opt]"
    using so by (simp add: select_option_Inr)
  have before: "votes_of db (poll_id vd) (option_id vd) = [votes opt]"
    using sel by (simp add: votes_of_def)
  have after: "votes_of db' (poll_id vd) (option_id vd) = [votes opt + 1]"
    unfolding d' by (rule votes_of_after_update [OF sel])
  have mem: "row \<in> set (polls db') \<and> id_p row = poll_id vd"
  proof -
    have "row \<in> set (filter (\<lambda>p. id_p p = poll_id vd) (polls db'))"
      by (simp add: row)
    then show ?thesis by simp
  qed
  let ?p = "completePoll row (options_of db' (poll_id vd))"
  have "data r = Some ?p"
    using r getPoll_success [OF nf row] by simp
  moreover have "map votes (filter (\<lambda>opt. id_o opt = option_id vd) (options ?p)) = [votes opt + 1]"
    using after by (simp add: filter_filter_options votes_of_def)
  ultimately show ?thesis
    using mem before
    by (intro exI [of _ ?p] exI [of _ row] exI [of _ "votes opt"]) simp
qed

text \<open>A vote for option \<open>a\<close> of poll \<open>p1\<close> on the example data succeeds.\<close>

theorem voteOnPoll_returns_updated_snapshot_witness:
  "success (fst (voteOnPoll env0 db0 vote_a))
   \<and> (\<exists>p row n. data (fst (voteOnPoll env0 db0 vote_a)) = Some p
           \<and> row \<in> set (polls (snd (voteOnPoll env0 db0 vote_a))) \<and> id_p row = poll_id vote_a
           \<and> poll_row.truncate p = row
           \<and> options p = options_of (snd (voteOnPoll env0 db0 vote_a)) (poll_id vote_a)
           \<and> total_votes p = sum_list (map votes (options p))
           \<and> votes_of db0 (poll_id vote_a) (option_id vote_a) = [n]
           \<and> map votes (filter (\<lambda>opt. id_o opt = option_id vote_a) (options p)) = [n + 1])"
proof -
  have s: "success (fst (voteOnPoll env0 db0 vote_a))"
    by code_simp
  have p: "voteOnPoll env0 db0 vote_a = (fst (voteOnPoll env0 db0 vote_a), snd (voteOnPoll env0 db0 vote_a))"
    by simp
  show ?thesis
    using voteOnPoll_returns_updated_snapshot [OF p s] s by blast
qed

text \<open>
  C6 as stated fails: the poll returned is read in a request of its own, after the write.
  Of three overlapping calls for option \<open>a\<close>, the third reads 1 vote and writes 2; then
  the second, which read 0 before the first call voted, writes 1; the third call's
  read-back comes after that, and it returns success with option \<open>a\<close> at 1 vote.
\<close>

theorem stale_snapshot_counterexample:
  "votes_of (snd (run [(env0, vote_a), (env0, vote_a), (env0, vote_a)]
                     [1, 1, 0, 0, 0, 0, 2, 2] ([Start, Start, Start], db0))) ''p1'' ''a'' = [1]
   \<and> votes_of (snd (run [(env0, vote_a), (env0, vote_a), (env0, vote_a)]
                     [1, 1, 0, 0, 0, 0, 2, 2, 2] ([Start, Start, Start], db0))) ''p1'' ''a'' = [2]
   \<and> succeeded (fst (run [(env0, vote_a), (env0, vote_a), (env0, vote_a)]
                     [1, 1, 0, 0, 0, 0, 2, 2, 2, 1, 2] ([Start, Start, Start], db0)) ! 2)
   \<and> snapshot_votes (fst (run [(env0, vote_a), (env0, vote_a), (env0, vote_a)]
                     [1, 1, 0, 0, 0, 0, 2, 2, 2, 1, 2] ([Start, Start, Start], db0)) ! 2) ''a''
       = [1]"
  by code_simp

section \<open>Failing votes\<close>

lemma api_failure_error:
  "m \<noteq> [] \<Longrightarrow> error (api_failure m) = Some \<lparr>field = None, message = m, type_e = General\<rparr>"
  by (simp add: api_failure_def createErrorResponse_def parseApiError_def of_FormError_def
      createFormError_def or_else_def)

lemma select_active_poll_found:
  assumes "fault e SelectActivePoll = None" and "distinct (map id_p (polls db))"
    and "poll \<in> set (polls db)" and "id_p poll = pollId" and "is_active poll"
  shows "select_active_poll e db pollId = Inr poll"
proof -
  have "filter (\<lambda>p. id_p p = pollId) (polls db) = [poll]"
    using assms(2,3,4) by (rule filter_key_member)
  then have "filter is_active (filter (\<lambda>p. id_p p = pollId) (polls db)) = [poll]"
    using assms(5) by simp
  then have "filter (\<lambda>p. id_p p = pollId \<and> is_active p) (polls db) = [poll]"
    by (simp add: conj_commute)
  then show ?thesis
    using assms(1) by (simp add: select_active_poll_Inr)
qed

lemma select_active_poll_missing:
  assumes "\<forall>p \<in> set (polls db). id_p p = pollId \<longrightarrow> \<not> is_active p"
  shows "\<exists>err. select_active_poll e db pollId = Inl err"
proof -
  have "filter (\<lambda>p. id_p p = pollId \<and> is_active p) (polls db) = []"
    using assms by (auto simp: filter_empty_conv)
  then show ?thesis
    by (cases "fault e SelectActivePoll") (simp_all add: select_active_poll_def answered_def single_def)
qed

lemma select_option_missing:
  assumes "votes_of db pollId optionId = []"
  shows "\<exists>err. select_option e db optionId pollId = Inl err"
  using assms
  by (cases "fault e SelectOption") (simp_all add: select_option_def answered_def single_def votes_of_def)

lemma voteOnPoll_expired:
  assumes "auth_user e \<noteq> None" and "trim (poll_id vd) \<noteq> []" and "trim (option_id vd) \<noteq> []"
    and "select_active_poll e db (poll_id vd) = Inr poll" and "has_expired e poll"
  shows "voteOnPoll e db vd = (api_failure ''This poll has expired'', db)"
  using voteOnPoll_outcome [of vd e db] assms by (elim disjE) auto

lemma voteOnPoll_not_found:
  assumes "auth_user e \<noteq> None" and "trim (poll_id vd) \<noteq> []" and "trim (option_id vd) \<noteq> []"
    and "select_active_poll e db (poll_id vd) = Inl err"
  shows "voteOnPoll e db vd = (api_failure ''Poll not found or inactive'', db)"
  using voteOnPoll_outcome [of vd e db] assms by (elim disjE) auto

lemma voteOnPoll_invalid_option:
  assumes "auth_user e \<noteq> None" and "trim (poll_id vd) \<noteq> []" and "trim (option_id vd) \<noteq> []"
    and "select_active_poll e db (poll_id vd) = Inr poll" and "\<not> has_expired e poll"
    and "select_option e db (option_id vd) (poll_id vd) = Inl err"
  shows "voteOnPoll e db vd = (api_failure ''Invalid option'', db)"
  using voteOnPoll_outcome [of vd e db] assms by (elim disjE) auto

text \<open>
  C5, as the code has it: for a signed-in caller with non-blank identifiers whose poll
  lookup the datastore answers, a vote on an active poll whose expiry is in the past
  fails with \<open>This poll has expired\<close> and changes nothing, whatever the option
  identifier is: the option is not looked up before the expiry is checked.
\<close>

theorem active_expired_poll_vote_fails:
  assumes "auth_user e \<noteq> None" and "trim (poll_id vd) \<noteq> []" and "trim (option_id vd) \<noteq> []"
    and "fault e SelectActivePoll = None" and "distinct (map id_p (polls db))"
    and "poll \<in> set (polls db)" and "id_p poll = poll_id vd" and "is_active poll"
    and "expires_at poll = Some t" and "t < now e"
  shows "voteOnPoll e db vd = (api_failure ''This poll has expired'', db)
    \<and> error (fst (voteOnPoll e db vd))
        = Some \<lparr>field = None, message = ''This poll has expired'', type_e = General\<rparr>"
proof -
  have "select_active_poll e db (poll_id vd) = Inr poll"
    using assms(4,5,6,7,8) by (rule select_active_poll_found)
  moreover have "has_expired e poll"
    using assms(9,10) by (simp add: has_expired_def)
  ultimately have "voteOnPoll e db vd = (api_failure ''This poll has expired'', db)"
    using assms(1,2,3) by (rule voteOnPoll_expired [rotated 3])
  then show ?thesis by (simp add: api_failure_error)
qed

text \<open>
  Poll \<open>p3\<close> is active and expired at 50, the clock is at 100: the vote fails as
  expired for its option \<open>d\<close> and for an identifier that names no option.
\<close>

theorem active_expired_poll_vote_fails_witness:
  "votes_of db0 ''p3'' ''d'' = [1]
   \<and> voteOnPoll env0 db0 \<lparr>poll_id = ''p3'', option_id = ''d''\<rparr>
       = (api_failure ''This poll has expired'', db0)
   \<and> votes_of db0 ''p3'' ''zz'' = []
   \<and> voteOnPoll env0 db0 \<lparr>poll_id = ''p3'', option_id = ''zz''\<rparr>
       = (api_failure ''This poll has expired'', db0)"
proof -
  have a: "auth_user env0 \<noteq> None" and f: "fault env0 SelectActivePoll = None"
    and n: "50 < now env0"
    by (simp_all add: env0_def no_fault_def)
  have p: "trim (poll_id \<lparr>poll_id = ''p3'', option_id = ''d''\<rparr>) \<noteq> []"
    "trim (option_id \<lparr>poll_id = ''p3'', option_id = ''d''\<rparr>) \<noteq> []"
    "trim (poll_id \<lparr>poll_id = ''p3'', option_id = ''zz''\<rparr>) \<noteq> []"
    "trim (option_id \<lparr>poll_id = ''p3'', option_id = ''zz''\<rparr>) \<noteq> []"
    by code_simp+
  have d: "distinct (map id_p (polls db0))"
    by code_simp
  have m: "poll3 \<in> set (polls db0)"
    by (simp add: db0_def)
  have i: "id_p poll3 = poll_id \<lparr>poll_id = ''p3'', option_id = ''d''\<rparr>"
    "id_p poll3 = poll_id \<lparr>poll_id = ''p3'', option_id = ''zz''\<rparr>"
    and x: "is_active poll3" "expires_at poll3 = Some 50"
    by (simp_all add: poll3_def)
  have v: "votes_of db0 ''p3'' ''d'' = [1]" "votes_of db0 ''p3'' ''zz'' = []"
    by code_simp+
  show ?thesis
    using active_expired_poll_vote_fails [OF a p(1,2) f d m i(1) x n]
      active_expired_poll_vote_fails [OF a p(3,4) f d m i(2) x n] v
    by blast
qed

text \<open>
  C5 as stated fails: poll \<open>p2\<close> is past its expiry too, but it is deactivated, and
  the lookup that filters on \<open>is_active\<close> comes first, so the vote fails with
  \<open>Poll not found or inactive\<close>. And on the active expired poll \<open>p3\<close> a blank
  option identifier fails validation before the poll is looked up.
\<close>

theorem expired_poll_vote_counterexample:
  "poll2 \<in> set (polls db0) \<and> id_p poll2 = ''p2'' \<and> expires_at poll2 = Some 50 \<and> 50 < now env0
   \<and> error (fst (voteOnPoll env0 db0 \<lparr>poll_id = ''p2'', option_id = ''c''\<rparr>))
       = Some \<lparr>field = None, message = ''Poll not found or inactive'', type_e = General\<rparr>
   \<and> poll3 \<in> set (polls db0) \<and> id_p poll3 = ''p3'' \<and> expires_at poll3 = Some 50
   \<and> error (fst (voteOnPoll env0 db0 \<lparr>poll_id = ''p3'', option_id = '' ''\<rparr>))
       = Some \<lparr>field = None, message = ''Validation failed'', type_e = Validation\<rparr>"
  by code_simp

text \<open>
  C2, as the code has it: a vote that reaches the datastore fails with one of three
  messages. \<open>Poll not found or inactive\<close> when no active poll has the identifier,
  be it that no poll has it or that the poll is deactivated; \<open>This poll has expired\<close>
  when the poll is active and past its expiry; \<open>Invalid option\<close> when the poll is
  active, not expired, and has no option with the identifier. Each failure leaves the
  datastore as it was.
\<close>

theorem vote_failure_kinds:
  assumes "auth_user e \<noteq> None" and "trim (poll_id vd) \<noteq> []" and "trim (option_id vd) \<noteq> []"
    and "fault e SelectActivePoll = None" and "distinct (map id_p (polls db))"
  shows "((\<forall>p \<in> set (polls db). id_p p = poll_id vd \<longrightarrow> \<not> is_active p) \<longrightarrow>
            voteOnPoll e db vd = (api_failure ''Poll not found or inactive'', db))
    \<and> (\<forall>p \<in> set (polls db). id_p p = poll_id vd \<and> is_active p \<and> has_expired e p \<longrightarrow>
            voteOnPoll e db vd = (api_failure ''This poll has expired'', db))
    \<and> (\<forall>p \<in> set (polls db). id_p p = poll_id vd \<and> is_active p \<and> \<not> has_expired e p
            \<and> votes_of db (poll_id vd) (option_id vd) = [] \<longrightarrow>
            voteOnPoll e db vd = (api_failure ''Invalid option'', db))
    \<and> error (api_failure ''Poll not found or inactive'' :: Poll PollOperationResult)
         = Some \<lparr>field = None, message = ''Poll not found or inactive'', type_e = General\<rparr>
    \<and> error (api_failure ''This poll has expired'' :: Poll PollOperationResult)
         = Some \<lparr>field = None, message = ''This poll has expired'', type_e = General\<rparr>
    \<and> error (api_failure ''Invalid option'' :: Poll PollOperationResult)
         = Some \<lparr>field = None, message = ''Invalid option'', type_e = General\<rparr>"
proof (intro conjI impI ballI)
  assume "\<forall>p \<in> set (polls db). id_p p = poll_id vd \<longrightarrow> \<not> is_active p"
  then obtain err where "select_active_poll e db (poll_id vd) = Inl err"
    using select_active_poll_missing by blast
  with assms(1,2,3) show "voteOnPoll e db vd = (api_failure ''Poll not found or inactive'', db)"
    by (rule voteOnPoll_not_found)
next
  fix p assume p: "p \<in> set (polls db)" "id_p p = poll_id vd \<and> is_active p \<and> has_expired e p"
  then have "select_active_poll e db (poll_id vd) = Inr p"
    using assms(4,5) by (simp add: select_active_poll_found)
  with assms(1,2,3) show "voteOnPoll e db vd = (api_failure ''This poll has expired'', db)"
    using p(2) by (simp add: voteOnPoll_expired)
next
  fix p assume p: "p \<in> set (polls db)"
    "id_p p = poll_id vd \<and> is_active p \<and> \<not> has_expired e p
       \<and> votes_of db (poll_id vd) (option_id vd) = []"
  then have s: "select_active_poll e db (poll_id vd) = Inr p"
    using assms(4,5) by (simp add: select_active_poll_found)
  obtain err where "select_option e db (option_id vd) (poll_id vd) = Inl err"
    using p(2) select_option_missing by blast
  with assms(1,2,3) s show "voteOnPoll e db vd = (api_failure ''Invalid option'', db)"
    using p(2) by (simp add: voteOnPoll_invalid_option)
qed (simp_all add: api_failure_error)

text \<open>
  On the example data: an unknown poll and the deactivated \<open>p2\<close>, the expired
  \<open>p3\<close>, and an unknown option of the open poll \<open>p1\<close>.
\<close>

theorem vote_failure_kinds_witness:
  "voteOnPoll env0 db0 \<lparr>poll_id = ''zz'', option_id = ''a''\<rparr>
      = (api_failure ''Poll not found or inactive'', db0)
   \<and> voteOnPoll env0 db0 \<lparr>poll_id = ''p2'', option_id = ''c''\<rparr>
      = (api_failure ''Poll not found or inactive'', db0)
   \<and> voteOnPoll env0 db0 \<lparr>poll_id = ''p3'', option_id = ''d''\<rparr>
      = (api_failure ''This poll has expired'', db0)
   \<and> voteOnPoll env0 db0 \<lparr>poll_id = ''p1'', option_id = ''zz''\<rparr>
      = (api_failure ''Invalid option'', db0)"
proof -
  have a: "auth_user env0 \<noteq> None" and f: "fault env0 SelectActivePoll = None"
    by (simp_all add: env0_def no_fault_def)
  have d: "distinct (map id_p (polls db0))"
    by code_simp
  have t: "trim ''zz'' \<noteq> []" "trim ''a'' \<noteq> []" "trim ''p2'' \<noteq> []" "trim ''c'' \<noteq> []"
    "trim ''p3'' \<noteq> []" "trim ''d'' \<noteq> []" "trim ''p1'' \<noteq> []"
    by code_simp+
  have 1: "\<forall>p \<in> set (polls db0). id_p p = ''zz'' \<longrightarrow> \<not> is_active p"
    by code_simp
  have 2: "\<forall>p \<in> set (polls db0). id_p p = ''p2'' \<longrightarrow> \<not> is_active p"
    by code_simp
  have 3: "poll3 \<in> set (polls db0)" "id_p poll3 = ''p3'' \<and> is_active poll3 \<and> has_expired env0 poll3"
    by code_simp+
  have 4: "poll1 \<in> set (polls db0)" "id_p poll1 = ''p1'' \<and> is_active poll1 \<and> \<not> has_expired env0 poll1
       \<and> votes_of db0 ''p1'' ''zz'' = []"
    by code_simp+
  show ?thesis
    using vote_failure_kinds [of env0 "\<lparr>poll_id = ''zz'', option_id = ''a''\<rparr>" db0] 
      vote_failure_kinds [of env0 "\<lparr>poll_id = ''p2'', option_id = ''c''\<rparr>" db0]
      vote_failure_kinds [of env0 "\<lparr>poll_id = ''p3'', option_id = ''d''\<rparr>" db0]
      vote_failure_kinds [of env0 "\<lparr>poll_id = ''p1'', option_id = ''zz''\<rparr>" db0]
      a f d t 1 2 3 4
    by simp blast
qed

text \<open>
  C2 as stated fails: the result of a vote on a poll that does not exist and the result of
  a vote on the deactivated poll \<open>p2\<close> are the same value, so the caller cannot tell
  the two apart.
\<close>

theorem not_found_or_inactive_counterexample:
  "''zz'' \<notin> set (map id_p (polls db0))
   \<and> poll2 \<in> set (polls db0) \<and> id_p poll2 = ''p2'' \<and> is_active poll2 = False
   \<and> fst (voteOnPoll env0 db0 \<lparr>poll_id = ''zz'', option_id = ''c''\<rparr>)
       = fst (voteOnPoll env0 db0 \<lparr>poll_id = ''p2'', option_id = ''c''\<rparr>)"
  by code_simp

lemma map_update_unique:
  assumes "distinct (map f xs)" and "i < length xs" and "f (xs ! i) = k"
  shows "map (\<lambda>x. if f x = k then g x else x) xs = xs[i := g (xs ! i)]"
proof (rule nth_equalityI)
  show "length (map (\<lambda>x. if f x = k then g x else x) xs) = length (xs[i := g (xs ! i)])"
    by simp
next
  fix j assume "j < length (map (\<lambda>x. if f x = k then g x else x) xs)"
  then have j: "j < length xs" by simp
  have "(f (xs ! j) = k) = (j = i)"
    using assms j nth_eq_iff_index_eq [of "map f xs" j i] by auto
  then show "map (\<lambda>x. if f x = k then g x else x) xs ! j = xs[i := g (xs ! i)] ! j"
    using j assms(2) by (auto simp: nth_list_update)
qed

lemma db_ok_keys:
  "db_ok db \<Longrightarrow> distinct (map id_p (polls db)) \<and> distinct (map id_o (poll_options db))"
  by (simp add: db_ok_def)

text \<open>
  C4, as the code has it: on a datastore that keeps its keys, for a vote call that runs
  with no other call in between: if it fails while the datastore answers the final
  read-back, it leaves the datastore as it was, and if it succeeds, it has changed exactly
  one row, the voted option of the voted poll, by one vote.
\<close>

theorem failed_vote_changes_nothing:
  assumes "voteOnPoll e db vd = (r, db')" and "db_ok db"
  shows "(\<not> success r \<and> fault e SelectPollWithOptions = None \<longrightarrow> db' = db)
    \<and> (success r \<longrightarrow>
         (\<exists>i < length (poll_options db).
            id_o (poll_options db ! i) = option_id vd
            \<and> poll_id_o (poll_options db ! i) = poll_id vd
            \<and> db' = db\<lparr>poll_options :=
                 (poll_options db)[i := (poll_options db ! i)
                                     \<lparr>votes := votes (poll_options db ! i) + 1\<rparr>]\<rparr>))"
proof (intro conjI impI)
  assume a: "\<not> success r \<and> fault e SelectPollWithOptions = None"
  show "db' = db"
  proof (rule ccontr)
    assume "db' \<noteq> db"
    with voteOnPoll_failure [OF assms(1)] a obtain poll and opt :: PollOption where
      sp: "select_active_poll e db (poll_id vd) = Inr poll"
      and d': "db' = db\<lparr>poll_options :=
                 map (\<lambda>x. if id_o x = option_id vd then x\<lparr>votes := votes opt + 1\<rparr> else x)
                     (poll_options db)\<rparr>"
      and r: "r = getPoll e db' (poll_id vd)"
      by blast
    have "filter (\<lambda>p. id_p p = poll_id vd \<and> is_active p) (polls db) = [poll]"
      using sp by (simp add: select_active_poll_Inr)
    then have "filter (\<lambda>p. id_p p = poll_id vd) (polls db) = [poll]"
      using db_ok_keys [OF assms(2)] by (simp add: filter_key_only)
    then have "filter (\<lambda>p. id_p p = poll_id vd) (polls db') = [poll]"
      by (simp add: d')
    then have "success r"
      using a r by (simp add: getPoll_success)
    with a show False by simp
  qed
next
  assume s: "success r"
  from voteOnPoll_success [OF assms(1) s] obtain opt where
    so: "select_option e db (option_id vd) (poll_id vd) = Inr opt"
    and d': "db' = db\<lparr>poll_options :=
                 map (\<lambda>x. if id_o x = option_id vd then x\<lparr>votes := votes opt + 1\<rparr> else x)
                     (poll_options db)\<rparr>"
    by blast
  have sel: "filter (\<lambda>x. id_o x = option_id vd \<and> poll_id_o x = poll_id vd) (poll_options db) = [opt]"
    using so by (simp add: select_option_Inr)
  then have "opt \<in> set (filter (\<lambda>x. id_o x = option_id vd \<and> poll_id_o x = poll_id vd)
                (poll_options db))"
    by simp
  then have opt: "opt \<in> set (poll_options db)" "id_o opt = option_id vd" "poll_id_o opt = poll_id vd"
    by simp_all
  then obtain i where i: "i < length (poll_options db)" "poll_options db ! i = opt"
    by (auto simp: in_set_conv_nth)
  have "map (\<lambda>x. if id_o x = option_id vd then x\<lparr>votes := votes opt + 1\<rparr> else x) (poll_options db)
        = (poll_options db)[i := (poll_options db ! i)\<lparr>votes := votes opt + 1\<rparr>]"
    using db_ok_keys [OF assms(2)] i opt(2)
    by (intro map_update_unique) simp_all
  with d' i opt show "\<exists>i < length (poll_options db).
            id_o (poll_options db ! i) = option_id vd
            \<and> poll_id_o (poll_options db ! i) = poll_id vd
            \<and> db' = db\<lparr>poll_options :=
                 (poll_options db)[i := (poll_options db ! i)
                                     \<lparr>votes := votes (poll_options db ! i) + 1\<rparr>]\<rparr>"
    by (intro exI [of _ i]) simp
qed

text \<open>
  On the example data: a vote for an unknown option fails and changes nothing, a vote for
  option \<open>a\<close> succeeds.
\<close>

theorem failed_vote_changes_nothing_witness:
  "db_ok db0
   \<and> \<not> success (fst (voteOnPoll env0 db0 \<lparr>poll_id = ''p1'', option_id = ''zz''\<rparr>))
   \<and> snd (voteOnPoll env0 db0 \<lparr>poll_id = ''p1'', option_id = ''zz''\<rparr>) = db0
   \<and> success (fst (voteOnPoll env0 db0 vote_a))
   \<and> (\<exists>i < length (poll_options db0).
            id_o (poll_options db0 ! i) = option_id vote_a
            \<and> poll_id_o (poll_options db0 ! i) = poll_id vote_a
            \<and> snd (voteOnPoll env0 db0 vote_a) = db0\<lparr>poll_options :=
                 (poll_options db0)[i := (poll_options db0 ! i)
                                     \<lparr>votes := votes (poll_options db0 ! i) + 1\<rparr>]\<rparr>)"
proof -
  have ok: "db_ok db0"
    by code_simp
  have f: "\<not> success (fst (voteOnPoll env0 db0 \<lparr>poll_id = ''p1'', option_id = ''zz''\<rparr>))"
    by code_simp
  have n: "fault env0 SelectPollWithOptions = None"
    by (simp add: env0_def no_fault_def)
  have s: "success (fst (voteOnPoll env0 db0 vote_a))"
    by code_simp
  have p: "voteOnPoll env0 db0 vd = (fst (voteOnPoll env0 db0 vd), snd (voteOnPoll env0 db0 vd))"
    for vd by simp
  show ?thesis
    using failed_vote_changes_nothing [OF p ok, of "\<lparr>poll_id = ''p1'', option_id = ''zz''\<rparr>"]
      failed_vote_changes_nothing [OF p ok, of vote_a] ok f n s
    by blast
qed

text \<open>
  C4 as stated fails, in two ways. \<open>voteOnPoll\<close> writes the new count and then returns
  whatever \<open>getPoll\<close> returns: when the datastore answers that read-back with an error
  the call fails, and option \<open>a\<close> has gone from 0 votes to 1. And a call that succeeds
  need not have added one vote: of three overlapping calls, the first reads option \<open>a\<close>
  at 0 votes, the other two take it to 2, and the first call's write takes it from 2 to 1
  before that call returns success.
\<close>

theorem failed_vote_counterexample:
  "\<not> success (fst (voteOnPoll (env0\<lparr>fault := readback_fault\<rparr>) db0 vote_a))
   \<and> votes_of db0 ''p1'' ''a'' = [0]
   \<and> votes_of (snd (voteOnPoll (env0\<lparr>fault := readback_fault\<rparr>) db0 vote_a)) ''p1'' ''a'' = [1]
   \<and> votes_of (snd (run [(env0, vote_a), (env0, vote_a), (env0, vote_a)]
                     [0, 0, 1, 1, 1, 2, 2, 2] ([Start, Start, Start], db0))) ''p1'' ''a'' = [2]
   \<and> votes_of (snd (run [(env0, vote_a), (env0, vote_a), (env0, vote_a)]
                     [0, 0, 1, 1, 1, 2, 2, 2, 0] ([Start, Start, Start], db0))) ''p1'' ''a'' = [1]
   \<and> succeeded (fst (run [(env0, vote_a), (env0, vote_a), (env0, vote_a)]
                     [0, 0, 1, 1, 1, 2, 2, 2, 0, 0] ([Start, Start, Start], db0)) ! 0)"
  by code_simp

section \<open>Polls accepted at creation\<close>

lemma options_of_new_poll:
  assumes "db_ok db" and "pollId \<notin> set (map id_p (polls db))"
    and "\<forall>opt \<in> set rows. poll_id_o opt = pollId"
  shows "options_of (db\<lparr>polls := ps, poll_options := poll_options db @ rows\<rparr>) pollId = rows"
proof -
  have "\<forall>opt \<in> set (poll_options db). poll_id_o opt \<noteq> pollId"
    using assms(1,2) by (auto simp: db_ok_def)
  then have "filter (\<lambda>opt. poll_id_o opt = pollId) (poll_options db) = []"
    by (simp add: filter_empty_conv)
  moreover have "filter (\<lambda>opt. poll_id_o opt = pollId) rows = rows"
    using assms(3) by (simp add: filter_id_conv)
  ultimately show ?thesis by (simp add: options_of_def)
qed

lemma optionsData_poll: "opt \<in> set (optionsData e pollId texts) \<Longrightarrow> poll_id_o opt = pollId"
  by (auto simp: optionsData_def)

text \<open>
  C7: a poll that \<open>createPoll\<close> accepts has at least 2 options, and their identifiers
  are pairwise different; on a datastore that keeps its keys these are exactly the options
  stored for the new poll. An input with fewer than 2 options, or with two options equal
  once trimmed and put in lower case, is rejected with the error \<open>Validation failed\<close>,
  and the datastore is left as it was: no poll is created.
\<close>

theorem createPoll_accepts_two_distinct_options:
  assumes "createPoll e db d = (r, db')"
  shows "(success r \<longrightarrow>
           (\<exists>p. data r = Some p \<and> 2 \<le> length (options p) \<and> distinct (map id_o (options p))
              \<and> (db_ok db \<longrightarrow> options_of db' (id_p p) = options p)))
    \<and> (length (options_c d) < 2
         \<or> \<not> distinct (map (\<lambda>opt. toLowerCase (trim opt)) (options_c d)) \<longrightarrow>
           \<not> success r \<and> error r = Some (createFormError ''Validation failed'' Validation)
           \<and> db' = db)"
proof -
  have accepted: "\<exists>p. data r = Some p \<and> 2 \<le> length (options p) \<and> distinct (map id_o (options p))
              \<and> (db_ok db \<longrightarrow> options_of db' (id_p p) = options p)" if s: "success r"
  proof -
  from createPoll_success [OF assms s] obtain row where
    v: "isValid (validatePollOptions (options_c d))"
    and fresh: "gen_id e 0 \<notin> set (map id_p (polls db))" and id: "id_p row = gen_id e 0"
    and dist: "distinct (map id_o (optionsData e (id_p row) (options_c d))
                 @ map id_o (poll_options db))"
    and r: "r = createSuccessResponse
                 (poll_row.extend row
                    \<lparr>options = optionsData e (id_p row) (options_c d), total_votes = 0\<rparr>)"
    and d': "db' = db\<lparr>polls := polls db @ [row],
                    poll_options := poll_options db @ optionsData e (id_p row) (options_c d)\<rparr>"
    by blast
  let ?p = "poll_row.extend row
              \<lparr>options = optionsData e (id_p row) (options_c d), total_votes = 0\<rparr>"
  have o: "options ?p = optionsData e (id_p row) (options_c d)" and i: "id_p ?p = id_p row"
    by (simp_all add: poll_row.defs)
  have "data r = Some ?p"
    using r by simp
  moreover have "2 \<le> length (options ?p)"
    using validatePollOptions_valid_length [OF v] o by simp
  moreover have "distinct (map id_o (options ?p))"
    using dist o by simp
  moreover have "db_ok db \<longrightarrow> options_of db' (id_p ?p) = options ?p"
    using fresh id o i d' by (auto simp: options_of_new_poll optionsData_poll)
  ultimately show ?thesis
    by blast
  qed
  have rejected: "\<not> success r \<and> error r = Some (createFormError ''Validation failed'' Validation)
           \<and> db' = db"
    if "length (options_c d) < 2
          \<or> \<not> distinct (map (\<lambda>opt. toLowerCase (trim opt)) (options_c d))"
  proof -
    have "\<not> isValid (validatePollOptions (options_c d))"
      using that validatePollOptions_valid_length [of "options_c d"] by auto
    from create_rejected [OF this, of e db] assms show ?thesis
      by auto
  qed
  show ?thesis
    using accepted rejected by blast
qed

text \<open>
  On the example data: a poll with the options \<open>Rice\<close> and \<open>Bread\<close> is accepted, one
  with the single option \<open>Rice\<close> is rejected.
\<close>

theorem createPoll_accepts_two_distinct_options_witness:
  "success (fst (createPoll env0 db0 lunch))
   \<and> (\<exists>p. data (fst (createPoll env0 db0 lunch)) = Some p \<and> 2 \<le> length (options p)
          \<and> distinct (map id_o (options p))
          \<and> options_of (snd (createPoll env0 db0 lunch)) (id_p p) = options p)
   \<and> \<not> success (fst (createPoll env0 db0 (lunch\<lparr>options_c := [''Rice'']\<rparr>)))
   \<and> snd (createPoll env0 db0 (lunch\<lparr>options_c := [''Rice'']\<rparr>)) = db0"
proof -
  have s: "success (fst (createPoll env0 db0 lunch))"
    by code_simp
  have ok: "db_ok db0"
    by code_simp
  have l: "length (options_c (lunch\<lparr>options_c := [''Rice'']\<rparr>)) < 2"
    by simp
  have p: "createPoll env0 db0 d = (fst (createPoll env0 db0 d), snd (createPoll env0 db0 d))"
    for d by simp
  show ?thesis
    using createPoll_accepts_two_distinct_options [OF p, of lunch]
      createPoll_accepts_two_distinct_options [OF p, of "lunch\<lparr>options_c := [''Rice'']\<rparr>"]
      s ok l
    by blast
qed

section \<open>Votes in turn and votes that overlap\<close>

text \<open>A call that runs alone through its four requests is \<open>voteOnPoll\<close>.\<close>

lemma run_alone:
  "run [(e, vd)] [0, 0, 0, 0] ([Start], db)
     = ([Finished (fst (voteOnPoll e db vd))], snd (voteOnPoll e db vd))"
  by (simp add: voteOnPoll_def Let_def split: sum.splits)





text \<open>
  C3 as stated fails: the count a call writes can be below the count stored. The first
  of three calls reads option \<open>a\<close> at 0 votes; the other two then vote in turn and take
  it to 2; the first call's write of 0 + 1 takes it back to 1.
\<close>

theorem stale_write_counterexample:
  "votes_of db0 ''p1'' ''a'' = [0]
   \<and> votes_of (snd (run [(env0, vote_a), (env0, vote_a), (env0, vote_a)]
                      [0, 0, 1, 1, 1, 2, 2, 2] ([Start, Start, Start], db0))) ''p1'' ''a'' = [2]
   \<and> votes_of (snd (run [(env0, vote_a), (env0, vote_a), (env0, vote_a)]
                      [0, 0, 1, 1, 1, 2, 2, 2, 0] ([Start, Start, Start], db0))) ''p1'' ''a'' = [1]"
  by code_simp

section \<open>Vote counts over a sequence of calls\<close>

lemma never_lowered_refl: "never_lowered db db"
  by (auto simp: never_lowered_def)

lemma never_lowered_trans:
  assumes "never_lowered a b" and "never_lowered b c"
  shows "never_lowered a c"
  unfolding never_lowered_def
proof
  fix opt assume "opt \<in> set (poll_options a)"
  with assms(1) obtain opt1 where 1: "opt1 \<in> set (poll_options b)" "id_o opt1 = id_o opt"
    "poll_id_o opt1 = poll_id_o opt" "votes opt \<le> votes opt1"
    by (auto simp: never_lowered_def)
  with assms(2) obtain opt2 where "opt2 \<in> set (poll_options c)" "id_o opt2 = id_o opt1"
    "poll_id_o opt2 = poll_id_o opt1" "votes opt1 \<le> votes opt2"
    by (auto simp: never_lowered_def)
  with 1 show "\<exists>opt' \<in> set (poll_options c).
      id_o opt' = id_o opt \<and> poll_id_o opt' = poll_id_o opt \<and> votes opt \<le> votes opt'"
    by (intro bexI [of _ opt2]) auto
qed

lemma never_lowered_superset:
  "set (poll_options db) \<subseteq> set (poll_options db') \<Longrightarrow> never_lowered db db'"
  by (auto simp: never_lowered_def)

lemma key_unique:
  "distinct (map f xs) \<Longrightarrow> x \<in> set xs \<Longrightarrow> y \<in> set xs \<Longrightarrow> f x = f y \<Longrightarrow> x = y"
  by (auto simp: distinct_map dest: inj_onD)

lemma update_never_lowered:
  assumes "db_ok db"
    and "filter (\<lambda>x. id_o x = oid \<and> poll_id_o x = pid) (poll_options db) = [opt]"
  shows "never_lowered db
           (db\<lparr>poll_options :=
                 map (\<lambda>x. if id_o x = oid then x\<lparr>votes := votes opt + 1\<rparr> else x)
                     (poll_options db)\<rparr>)"
  unfolding never_lowered_def
proof
  fix x assume x: "x \<in> set (poll_options db)"
  let ?f = "\<lambda>x. if id_o x = oid then x\<lparr>votes := votes opt + 1\<rparr> else x"
  have "opt \<in> set (filter (\<lambda>x. id_o x = oid \<and> poll_id_o x = pid) (poll_options db))"
    by (simp add: assms(2))
  then have opt: "opt \<in> set (poll_options db)" "id_o opt = oid"
    by simp_all
  have "id_o x = oid \<Longrightarrow> x = opt"
    using key_unique [of id_o "poll_options db" x opt] assms(1) x opt
    by (simp add: db_ok_def)
  then have "votes x \<le> votes (?f x)" "id_o (?f x) = id_o x" "poll_id_o (?f x) = poll_id_o x"
    by auto
  moreover have "?f x \<in> set (map ?f (poll_options db))"
    using x by (rule imageI [of x "set (poll_options db)" ?f, simplified set_map [symmetric]])
  ultimately show "\<exists>opt' \<in> set (poll_options (db\<lparr>poll_options := map ?f (poll_options db)\<rparr>)).
      id_o opt' = id_o x \<and> poll_id_o opt' = poll_id_o x \<and> votes x \<le> votes opt'"
    by (intro bexI [of _ "?f x"]) simp_all
qed

lemma update_keeps_ids:
  "map id_o (map (\<lambda>x. if id_o x = oid then x\<lparr>votes := v\<rparr> else x) xs) = map id_o xs"
  "map poll_id_o (map (\<lambda>x. if id_o x = oid then x\<lparr>votes := v\<rparr> else x) xs) = map poll_id_o xs"
  by (induction xs) auto

lemma db_ok_alt:
  "db_ok db \<longleftrightarrow>
     distinct (map id_p (polls db)) \<and> distinct (map id_o (poll_options db))
     \<and> set (map poll_id_o (poll_options db)) \<subseteq> set (map id_p (polls db))"
  by (auto simp: db_ok_def)

lemma update_db_ok:
  assumes "db_ok db"
  shows "db_ok (db\<lparr>poll_options :=
                 map (\<lambda>x. if id_o x = oid then x\<lparr>votes := v\<rparr> else x) (poll_options db)\<rparr>)"
proof -
  let ?xs = "map (\<lambda>x. if id_o x = oid then x\<lparr>votes := v\<rparr> else x) (poll_options db)"
  have "distinct (map id_o ?xs)"
    using assms by (simp only: update_keeps_ids db_ok_alt)
  moreover have "set (map poll_id_o ?xs) \<subseteq> set (map id_p (polls db))"
    using assms by (simp only: update_keeps_ids db_ok_alt)
  moreover have "distinct (map id_p (polls db))"
    using assms by (simp only: db_ok_alt)
  moreover have "polls (db\<lparr>poll_options := ?xs\<rparr>) = polls db"
    "poll_options (db\<lparr>poll_options := ?xs\<rparr>) = ?xs"
    by simp_all
  ultimately show ?thesis
    by (simp only: db_ok_alt)
qed

lemma voteOnPoll_db:
  "snd (voteOnPoll e db vd) = db
   \<or> (\<exists>opt. filter (\<lambda>x. id_o x = option_id vd \<and> poll_id_o x = poll_id vd) (poll_options db) = [opt]
         \<and> snd (voteOnPoll e db vd) = db\<lparr>poll_options :=
                 map (\<lambda>x. if id_o x = option_id vd then x\<lparr>votes := votes opt + 1\<rparr> else x)
                     (poll_options db)\<rparr>)"
  using voteOnPoll_outcome [of vd e db]
  by (elim disjE) (auto simp: select_option_Inr)

lemma voteOnPoll_keeps:
  assumes "db_ok db"
  shows "never_lowered db (snd (voteOnPoll e db vd)) \<and> db_ok (snd (voteOnPoll e db vd))"
  using voteOnPoll_db [of e db vd] assms
  by (auto simp: never_lowered_refl update_never_lowered update_db_ok)

lemma createPoll_db:
  "snd (createPoll e db d) = db
   \<or> (\<exists>row. gen_id e 0 \<notin> set (map id_p (polls db)) \<and> id_p row = gen_id e 0
         \<and> (snd (createPoll e db d) = db\<lparr>polls := polls db @ [row]\<rparr>
            \<or> snd (createPoll e db d) = delete_poll (id_p row) (db\<lparr>polls := polls db @ [row]\<rparr>)
            \<or> (distinct (map id_o (optionsData e (id_p row) (options_c d))
                          @ map id_o (poll_options db))
               \<and> snd (createPoll e db d)
                  = db\<lparr>polls := polls db @ [row],
                       poll_options := poll_options db
                                       @ optionsData e (id_p row) (options_c d)\<rparr>)))"
proof (cases "success (validateCreatePollData e d :: Poll PollOperationResult)")
  case False
  then show ?thesis by (simp add: createPoll_def Let_def)
next
  case ok: True
  show ?thesis
  proof (cases "getAuthenticatedClient e")
    case (Inl thrown)
    with ok show ?thesis by (simp add: createPoll_def Let_def)
  next
    case u: (Inr user)
    show ?thesis
    proof (cases "insert_poll e db (trim (title_c d)) (trimmed_or_null (description_c d))
                    user (expires_at_c d)")
      case (Inl pollError)
      with ok u show ?thesis by (simp add: createPoll_def Let_def)
    next
      case (Inr inserted)
      then obtain row db1 where ip: "insert_poll e db (trim (title_c d))
          (trimmed_or_null (description_c d)) user (expires_at_c d) = Inr (row, db1)"
        by (cases inserted) simp
      note fresh = insert_poll_Inr [OF ip]
      show ?thesis
      proof (cases "insert_options e InsertOptions db1 (optionsData e (id_p row) (options_c d))")
        case (Inl optionsError)
        then have "snd (createPoll e db d)
            = (case fault e CleanupPoll of None \<Rightarrow> delete_poll (id_p row) db1 | Some _ \<Rightarrow> db1)"
          using ok u ip by (simp add: createPoll_def Let_def)
        then have "snd (createPoll e db d) = db1 \<or> snd (createPoll e db d) = delete_poll (id_p row) db1"
          by (cases "fault e CleanupPoll") simp_all
        with fresh show ?thesis by blast
      next
        case (Inr res)
        then obtain opts db2 where io: "insert_options e InsertOptions db1
            (optionsData e (id_p row) (options_c d)) = Inr (opts, db2)"
          by (cases res) simp
        then have "snd (createPoll e db d) = db2"
          using ok u ip by (simp add: createPoll_def Let_def)
        moreover have "distinct (map id_o (optionsData e (id_p row) (options_c d))
                          @ map id_o (poll_options db))"
          and "db2 = db\<lparr>polls := polls db @ [row],
                       poll_options := poll_options db
                                       @ optionsData e (id_p row) (options_c d)\<rparr>"
          using io fresh by (auto simp: insert_options_Inr)
        ultimately show ?thesis using fresh by blast
      qed
    qed
  qed
qed

lemma delete_fresh_poll:
  assumes "db_ok db" and "pollId \<notin> set (map id_p (polls db))" and "id_p row = pollId"
  shows "delete_poll pollId (db\<lparr>polls := polls db @ [row]\<rparr>) = db"
proof -
  have "filter (\<lambda>p. id_p p \<noteq> pollId) (polls db) = polls db"
    using assms(2) by (auto simp: filter_id_conv)
  moreover have "filter (\<lambda>opt. poll_id_o opt \<noteq> pollId) (poll_options db) = poll_options db"
    using assms(1,2) by (auto simp: filter_id_conv db_ok_def)
  ultimately show ?thesis
    using assms(3) by (simp add: delete_poll_def)
qed

lemma poll_added_db_ok:
  assumes "db_ok db" and "id_p row \<notin> set (map id_p (polls db))"
  shows "db_ok (db\<lparr>polls := polls db @ [row]\<rparr>)"
  using assms by (auto simp: db_ok_def)

lemma options_added_db_ok:
  assumes "db_ok db" and "distinct (map id_o rows @ map id_o (poll_options db))"
    and "\<forall>opt \<in> set rows. poll_id_o opt \<in> set (map id_p (polls db))"
  shows "db_ok (db\<lparr>poll_options := poll_options db @ rows\<rparr>)"
  using assms by (auto simp: db_ok_def)

lemma createPoll_keeps:
  assumes "db_ok db"
  shows "never_lowered db (snd (createPoll e db d)) \<and> db_ok (snd (createPoll e db d))"
  using createPoll_db [of e db d]
proof (elim disjE exE conjE)
  assume "snd (createPoll e db d) = db"
  with assms show ?thesis by (simp add: never_lowered_refl)
next
  fix row
  assume "gen_id e 0 \<notin> set (map id_p (polls db))" and "id_p row = gen_id e 0"
    and "snd (createPoll e db d) = db\<lparr>polls := polls db @ [row]\<rparr>"
  with assms show ?thesis
    by (simp add: poll_added_db_ok never_lowered_superset)
next
  fix row
  assume "gen_id e 0 \<notin> set (map id_p (polls db))" and "id_p row = gen_id e 0"
    and "snd (createPoll e db d) = delete_poll (id_p row) (db\<lparr>polls := polls db @ [row]\<rparr>)"
  with assms show ?thesis
    by (simp add: delete_fresh_poll never_lowered_refl)
next
  fix row
  assume fresh: "gen_id e 0 \<notin> set (map id_p (polls db))" and id: "id_p row = gen_id e 0"
    and dist: "distinct (map id_o (optionsData e (id_p row) (options_c d))
                 @ map id_o (poll_options db))"
    and db': "snd (createPoll e db d)
           = db\<lparr>polls := polls db @ [row],
                poll_options := poll_options db @ optionsData e (id_p row) (options_c d)\<rparr>"
  let ?db1 = "db\<lparr>polls := polls db @ [row]\<rparr>"
  let ?rows = "optionsData e (id_p row) (options_c d)"
  have 1: "db_ok ?db1"
    using assms fresh id by (simp add: poll_added_db_ok)
  have "db_ok (?db1\<lparr>poll_options := poll_options ?db1 @ ?rows\<rparr>)"
  proof (rule options_added_db_ok [OF 1])
    show "distinct (map id_o ?rows @ map id_o (poll_options ?db1))"
      using dist by simp
    show "\<forall>opt \<in> set ?rows. poll_id_o opt \<in> set (map id_p (polls ?db1))"
      by (auto dest: optionsData_poll)
  qed
  then have "db_ok (snd (createPoll e db d))"
    by (simp add: db')
  moreover have "never_lowered db (snd (createPoll e db d))"
    by (rule never_lowered_superset) (simp add: db')
  ultimately show ?thesis by simp
qed

text \<open>
  C3, as the code has it: over any sequence of \<open>voteOnPoll\<close> and \<open>createPoll\<close>
  calls made one at a time on a datastore that keeps its keys, every option row that was
  there at the start is still there at the end, with at least the votes it had; and the
  datastore still keeps its keys.
\<close>

theorem calls_in_turn_never_lower:
  assumes "db_ok db"
  shows "never_lowered db (perform_all calls db) \<and> db_ok (perform_all calls db)"
  using assms
proof (induction calls arbitrary: db)
  case Nil
  then show ?case by (simp add: never_lowered_refl)
next
  case (Cons c cs)
  have step: "never_lowered db (perform c db) \<and> db_ok (perform c db)"
    using Cons.prems by (cases c) (simp_all add: voteOnPoll_keeps createPoll_keeps)
  with Cons.IH [of "perform c db"] show ?case
    by (auto intro: never_lowered_trans)
qed

text \<open>
  A vote, a poll creation and another vote on the example data.
\<close>

theorem calls_in_turn_never_lower_witness:
  "db_ok db0
   \<and> never_lowered db0
        (perform_all [Vote env0 vote_a, Create env0 lunch, Vote env0 vote_a] db0)
   \<and> votes_of (perform_all [Vote env0 vote_a, Create env0 lunch, Vote env0 vote_a] db0)
        ''p1'' ''a'' = [2]"
proof -
  have ok: "db_ok db0"
    by code_simp
  have v: "votes_of (perform_all [Vote env0 vote_a, Create env0 lunch, Vote env0 vote_a] db0)
        ''p1'' ''a'' = [2]"
    by code_simp
  show ?thesis
    using calls_in_turn_never_lower [OF ok, of "[Vote env0 vote_a, Create env0 lunch, Vote env0 vote_a]"]
      ok v
    by simp
qed

section \<open>The ownership check of updatePoll\<close>

text \<open>
  \<open>updatePoll\<close> passes \<open>user.id\<close>, a non-empty string, to \<open>checkPollOwnership\<close>,
  which then compares \<open>created_by\<close> with the \<open>id\<close> property of that string. The check
  answers \<open>false\<close>, and \<open>updatePoll\<close> returns before its first write.
\<close>

lemma checkPollOwnership_with_id:
  "u \<noteq> [] \<Longrightarrow> checkPollOwnership e db pollId (Some u) = Inr False"
  by (simp add: checkPollOwnership_def dot_id_def split: sum.splits)

lemma updatePoll_not_owner:
  assumes "auth_user e = Some u" and "u \<noteq> []"
  shows "\<not> success (fst (updatePoll e db pollId d)) \<and> snd (updatePoll e db pollId d) = db"
  using assms
  by (simp add: updatePoll_def Let_def getAuthenticatedClient_def checkPollOwnership_with_id
      validateUpdatePollData_def)

section \<open>Unregistering from the hub\<close>

text \<open>
  C8: \<open>unregister\<close> is idempotent. Unregistering a connection twice gives the registry
  that unregistering it once gives, unregistering a connection that is not registered
  changes nothing, and every other connection stays registered or unregistered as it was,
  in the same order. \<open>unregister\<close> is a total function: it has no error to raise.
\<close>

theorem unregister_idempotent:
  "unregister c (unregister c h) = unregister c h
   \<and> c \<notin> set (unregister c h)
   \<and> (c \<notin> set h \<longrightarrow> unregister c h = h)
   \<and> (\<forall>d. d \<noteq> c \<longrightarrow> (d \<in> set (unregister c h)) = (d \<in> set h))
   \<and> filter (\<lambda>d. d \<noteq> c) (unregister c h) = filter (\<lambda>d. d \<noteq> c) h"
  by (auto simp: unregister_def filter_id_conv)

text \<open>
  Connections 1, 2 and 3 register; connection 2 unregisters, once and twice.
\<close>

theorem unregister_idempotent_witness:
  "unregister 2 (unregister 2 (register 3 (register 2 (register 1 [])))) = [1, 3]
   \<and> unregister 2 (register 3 (register 2 (register 1 []))) = [1, 3]
   \<and> 2 \<notin> set [1, 3 :: nat] \<and> unregister 2 [1, 3] = [1, 3]
   \<and> (1 \<in> set (unregister 2 (register 3 (register 2 (register 1 [])))))
       = (1 \<in> set (register 3 (register 2 (register 1 []))))"
proof -
  have h: "register 3 (register 2 (register 1 [])) = [1, 2, 3]"
    by (simp add: register_def)
  have u: "unregister 2 [1, 2, 3] = [1, 3]"
    by (simp add: unregister_def)
  have n: "2 \<notin> set [1, 3 :: nat]" "(1::nat) \<noteq> 2"
    by simp_all
  show ?thesis
    using unregister_idempotent [of 2 "[1, 2, 3]"] unregister_idempotent [of 2 "[1, 3]"] h u n
    by simp
qed

end
